theory Spec2Isabelle
  imports Complex_Main "HOL-Library.AList"
begin

section \<open>Values, vectors and errors\<close>

text \<open>
  The geometry code of \<^verbatim>\<open>ezdxf/addons/geo.py\<close> works on dynamically typed Python
  values: nested dicts keyed by strings, lists, tuples, numbers, \<^verbatim>\<open>None\<close> and
  \<^verbatim>\<open>Vector\<close> objects. The coordinates of the geometry code are exact reals: that code
  copies, compares and reorders coordinates and computes nothing with them but the
  closeness of two points; its orientation test is a parameter. The curve code takes its
  whole arithmetic as a parameter.

  Modelled from the spec: the \<^verbatim>\<open>Vector\<close>/\<^verbatim>\<open>Vec2\<close>/\<^verbatim>\<open>Vec3\<close> classes of
  \<^verbatim>\<open>ezdxf.math\<close> are not part of the sources at hand. A point is "an ordered 2- or
  3-component real-valued coordinate" with value-based arithmetic; a 2D point is kept as the
  point with third component 0.
\<close>

datatype vec = Vec (vx: real) (vy: real) (vz: real)

datatype pyval =
    PNone
  | PNum real
  | PStr string
  | PList "pyval list"
  | PTuple "pyval list"
  | PDict "(pyval \<times> pyval) list"
  | PVec vec
  | PType  \<comment> \<open>the builtin class object \<^verbatim>\<open>type\<close>\<close>

text \<open>
  Explicit \<^verbatim>\<open>raise\<close> statements are named after the error taxonomy of the
  specification; exceptions raised by the Python runtime itself keep their Python names.
\<close>

datatype error =
    MissingKey string            \<comment> \<open>\<^verbatim>\<open>ValueError\<close>: required key not found (parse)\<close>
  | UnknownType pyval            \<comment> \<open>\<^verbatim>\<open>TypeError('Invalid type ...')\<close> (parse)\<close>
  | InvalidCoordinateSequence    \<comment> \<open>\<^verbatim>\<open>ValueError('Invalid coordinate sequence.')\<close>\<close>
  | TooFewVertices nat           \<comment> \<open>\<^verbatim>\<open>ValueError('Invalid vertex count ...')\<close>\<close>
  | TypeMismatch                 \<comment> \<open>\<^verbatim>\<open>TypeError('Type mismatch ...')\<close> (join)\<close>
  | UnsupportedEntity string     \<comment> \<open>\<^verbatim>\<open>TypeError(dxftype)\<close> (mapping)\<close>
  | HatchWithoutBoundary         \<comment> \<open>\<^verbatim>\<open>ValueError('HATCH without any boundary path.')\<close>\<close>
  | InvalidArity                 \<comment> \<open>\<^verbatim>\<open>ValueError('Four control points required.')\<close>\<close>
  | OutOfRange                   \<comment> \<open>\<^verbatim>\<open>ValueError('t not in range [0 to 1]')\<close>\<close>
  | InvalidArgument int          \<comment> \<open>\<^verbatim>\<open>ValueError(segments)\<close>\<close>
  | PyKeyError pyval
  | PyTypeError
  | PyAttributeError string
  | PyIndexError
  | PyValueError
  | PyRecursionError
  | PyOverflowError
  | PyZeroDivisionError

abbreviation TYPE_KEY :: string where "TYPE_KEY \<equiv> ''type''"
abbreviation COORDINATES :: string where "COORDINATES \<equiv> ''coordinates''"
abbreviation POINT :: string where "POINT \<equiv> ''Point''"
abbreviation MULTI_POINT :: string where "MULTI_POINT \<equiv> ''MultiPoint''"
abbreviation LINE_STRING :: string where "LINE_STRING \<equiv> ''LineString''"
abbreviation MULTI_LINE_STRING :: string where "MULTI_LINE_STRING \<equiv> ''MultiLineString''"
abbreviation POLYGON :: string where "POLYGON \<equiv> ''Polygon''"
abbreviation MULTI_POLYGON :: string where "MULTI_POLYGON \<equiv> ''MultiPolygon''"
abbreviation GEOMETRY_COLLECTION :: string where "GEOMETRY_COLLECTION \<equiv> ''GeometryCollection''"
abbreviation GEOMETRIES :: string where "GEOMETRIES \<equiv> ''geometries''"
abbreviation GEOMETRY :: string where "GEOMETRY \<equiv> ''geometry''"
abbreviation FEATURES :: string where "FEATURES \<equiv> ''features''"
abbreviation FEATURE :: string where "FEATURE \<equiv> ''Feature''"
abbreviation FEATURE_COLLECTION :: string where "FEATURE_COLLECTION \<equiv> ''FeatureCollection''"

subsection \<open>Python runtime operations used by the code\<close>

text \<open>Truth value of an object, as tested by \<^verbatim>\<open>if x:\<close>.\<close>

fun truthy :: "pyval \<Rightarrow> bool" where
  "truthy PNone = False"
| "truthy (PNum r) = (r \<noteq> 0)"
| "truthy (PStr s) = (s \<noteq> [])"
| "truthy (PList xs) = (xs \<noteq> [])"
| "truthy (PTuple xs) = (xs \<noteq> [])"
| "truthy (PDict d) = (d \<noteq> [])"
| "truthy (PVec v) = (vx v \<noteq> 0 \<or> vy v \<noteq> 0 \<or> vz v \<noteq> 0)"
| "truthy PType = True"

text \<open>Lists and dicts are unhashable; a tuple is hashable when its items are.\<close>

fun hashable :: "pyval \<Rightarrow> bool" where
  "hashable (PList xs) = False"
| "hashable (PDict d) = False"
| "hashable (PTuple xs) = (\<forall>x \<in> set xs. hashable x)"
| "hashable v = True"

text \<open>
  \<^verbatim>\<open>d.get(k)\<close> and \<^verbatim>\<open>d[k]\<close> on a value. A dict is an association list in insertion
  order; the keys written by this code are strings.
\<close>

fun dict_get :: "pyval \<Rightarrow> string \<Rightarrow> error + pyval" where
  "dict_get (PDict d) k = (case map_of d (PStr k) of None \<Rightarrow> Inr PNone | Some v \<Rightarrow> Inr v)"
| "dict_get v k = Inl (PyAttributeError ''get'')"

fun getitem :: "pyval \<Rightarrow> string \<Rightarrow> error + pyval" where
  "getitem (PDict d) k = (case map_of d (PStr k) of None \<Rightarrow> Inl (PyKeyError (PStr k)) | Some v \<Rightarrow> Inr v)"
| "getitem v k = Inl PyTypeError"

fun contains_key :: "pyval \<Rightarrow> string \<Rightarrow> bool" where
  "contains_key (PDict d) k = (map_of d (PStr k) \<noteq> None)"
| "contains_key v k = False"

text \<open>\<^verbatim>\<open>d[k] = v\<close>: an existing key keeps its position, a new key is appended.\<close>

fun setitem :: "pyval \<Rightarrow> pyval \<Rightarrow> pyval \<Rightarrow> error + pyval" where
  "setitem (PDict d) k v = (if hashable k then Inr (PDict (AList.update k v d)) else Inl PyTypeError)"
| "setitem x k v = Inl PyTypeError"

text \<open>The items produced by iterating over a value.\<close>

fun py_iter :: "pyval \<Rightarrow> error + pyval list" where
  "py_iter (PList xs) = Inr xs"
| "py_iter (PTuple xs) = Inr xs"
| "py_iter (PDict d) = Inr (map fst d)"
| "py_iter (PStr s) = Inr (map (\<lambda>c. PStr [c]) s)"
| "py_iter (PVec v) = Inr [PNum (vx v), PNum (vy v), PNum (vz v)]"
| "py_iter v = Inl PyTypeError"

text \<open>A list comprehension stops at the first item whose evaluation raises.\<close>

fun sequence :: "(error + 'a) list \<Rightarrow> error + 'a list" where
  "sequence [] = Inr []"
| "sequence (Inl e # rs) = Inl e"
| "sequence (Inr x # rs) = (case sequence rs of Inl e \<Rightarrow> Inl e | Inr xs \<Rightarrow> Inr (x # xs))"

section \<open>Joining mappings of one geometry type\<close>

text \<open>
  \<^verbatim>\<open>join_multi_single_type_mappings\<close>: the loop collects the set of type tags (kept here
  as a duplicate-free list) and the list of coordinates.
\<close>

fun join_loop :: "pyval list \<Rightarrow> pyval list \<Rightarrow> pyval list \<Rightarrow> error + (pyval list \<times> pyval list)" where
  "join_loop [] types data = Inr (types, data)"
| "join_loop (g # gs) types data =
     (case getitem g TYPE_KEY of
        Inl e \<Rightarrow> Inl e
      | Inr t \<Rightarrow>
          if \<not> hashable t then Inl PyTypeError
          else (case getitem g COORDINATES of
                  Inl e \<Rightarrow> Inl e
                | Inr c \<Rightarrow> join_loop gs (List.insert t types) (data @ [c])))"

definition join_multi_single_type_mappings :: "pyval list \<Rightarrow> error + pyval" where
  "join_multi_single_type_mappings geometries =
     (case join_loop geometries [] [] of
        Inl e \<Rightarrow> Inl e
      | Inr (types, data) \<Rightarrow>
          if length types > 1 then Inl TypeMismatch
          else if length types = 0 then Inr (PDict [])
          else (case hd types of
                  PStr t \<Rightarrow> Inr (PDict [(PStr TYPE_KEY, PStr (''Multi'' @ t)),
                                        (PStr COORDINATES, PList data)])
                | _ \<Rightarrow> Inl PyTypeError))"

text \<open>The tag and the coordinates of a geometry mapping, where it has them.\<close>

definition tag_of :: "pyval \<Rightarrow> string option" where
  "tag_of g = (case getitem g TYPE_KEY of Inr (PStr t) \<Rightarrow> Some t | _ \<Rightarrow> None)"

definition coordinates_of :: "pyval \<Rightarrow> pyval option" where
  "coordinates_of g = (case getitem g COORDINATES of Inr c \<Rightarrow> Some c | Inl e \<Rightarrow> None)"

definition geometry_mapping :: "pyval \<Rightarrow> bool" where
  "geometry_mapping g \<longleftrightarrow> tag_of g \<noteq> None \<and> coordinates_of g \<noteq> None"

lemma card_gt_one:
  assumes "finite T" and "x \<in> T" and "y \<in> T" and "x \<noteq> y"
  shows "card T > 1"
  using assms by (metis card_le_Suc0_iff_eq not_less One_nat_def)

lemma distinct_singleton:
  assumes "distinct xs" and "set xs = {a}"
  shows "xs = [a]"
proof (cases xs)
  case Nil
  with assms(2) show ?thesis by simp
next
  case (Cons x ys)
  with assms(2) have x: "x = a" by auto
  from Cons assms x have "a \<notin> set ys" and "set ys \<subseteq> {a}" by auto
  then have "ys = []" by (cases ys) auto
  with Cons x show ?thesis by simp
qed

lemma join_loop_run:
  assumes "\<forall>g \<in> set gs. geometry_mapping g" and "distinct types"
  shows "\<exists>types'. join_loop gs types data = Inr (types', data @ map (the \<circ> coordinates_of) gs)
           \<and> distinct types'
           \<and> set types' = set types \<union> (\<lambda>g. PStr (the (tag_of g))) ` set gs"
  using assms
proof (induction gs arbitrary: types data)
  case Nil
  then show ?case by simp
next
  case (Cons g gs)
  from Cons.prems(1) obtain t c where t: "getitem g TYPE_KEY = Inr (PStr t)"
    and c: "getitem g COORDINATES = Inr c"
    by (auto simp: geometry_mapping_def tag_of_def coordinates_of_def
        split: sum.splits pyval.splits)
  have tg: "tag_of g = Some t" and cg: "coordinates_of g = Some c"
    using t c by (simp_all add: tag_of_def coordinates_of_def)
  have d: "distinct (List.insert (PStr t) types)"
    using Cons.prems(2) by simp
  from Cons.prems(1) have rest: "\<forall>g \<in> set gs. geometry_mapping g" by simp
  from Cons.IH [OF rest d, of "data @ [c]"] obtain types' where
    run: "join_loop gs (List.insert (PStr t) types) (data @ [c])
            = Inr (types', (data @ [c]) @ map (the \<circ> coordinates_of) gs)"
    and dist: "distinct types'"
    and elems: "set types' = set (List.insert (PStr t) types)
                  \<union> (\<lambda>g. PStr (the (tag_of g))) ` set gs"
    by blast
  have "join_loop (g # gs) types data = Inr (types', data @ map (the \<circ> coordinates_of) (g # gs))"
    using run t c cg by simp
  moreover have "set types' = set types \<union> (\<lambda>g. PStr (the (tag_of g))) ` set (g # gs)"
    using elems tg by auto
  ultimately show ?case using dist by blast
qed

lemma join_mismatch:
  assumes "join_loop gs [] [] = Inr (types, ds)" and "length types > 1"
  shows "join_multi_single_type_mappings gs = Inl TypeMismatch"
  using assms by (simp add: join_multi_single_type_mappings_def)

lemma join_single:
  assumes "join_loop gs [] [] = Inr ([PStr t], ds)"
  shows "join_multi_single_type_mappings gs =
           Inr (PDict [(PStr TYPE_KEY, PStr (''Multi'' @ t)), (PStr COORDINATES, PList ds)])"
  using assms by (simp add: join_multi_single_type_mappings_def)

text \<open>
  C7. Join of same-type mappings: an empty input list gives the empty mapping; geometry
  mappings (each with a string \<^verbatim>\<open>type\<close> and a \<^verbatim>\<open>coordinates\<close> entry) that do not all
  carry one tag fail with the type mismatch error; otherwise the result is the mapping
  with type \<^verbatim>\<open>Multi<Tag>\<close> whose coordinates are the inputs' coordinates in input order.
\<close>

theorem join_multi_single_type_mappings_spec:
  assumes "\<forall>g \<in> set gs. geometry_mapping g"
  shows "join_multi_single_type_mappings gs =
           (if gs = [] then Inr (PDict [])
            else if \<exists>g \<in> set gs. tag_of g \<noteq> tag_of (hd gs) then Inl TypeMismatch
            else Inr (PDict [(PStr TYPE_KEY, PStr (''Multi'' @ the (tag_of (hd gs)))),
                             (PStr COORDINATES, PList (map (the \<circ> coordinates_of) gs))]))"
proof -
  define tg where "tg = (\<lambda>g. PStr (the (tag_of g)))"
  define T where "T = tg ` set gs"
  from join_loop_run [OF assms, of "[]" "[]"] obtain types where
    run: "join_loop gs [] [] = Inr (types, map (the \<circ> coordinates_of) gs)"
    and dist: "distinct types" and elems: "set types = T"
    unfolding T_def tg_def by auto
  have len: "length types = card T"
    using dist elems distinct_card [of types] by simp
  show ?thesis
  proof (cases "gs = []")
    case True
    then show ?thesis by (simp add: join_multi_single_type_mappings_def)
  next
    case False
    then have hd_in: "hd gs \<in> set gs" by simp
    then have hd_T: "tg (hd gs) \<in> T" unfolding T_def by (rule imageI)
    have some: "tag_of g = Some (the (tag_of g))" if "g \<in> set gs" for g
    proof -
      from that assms have "tag_of g \<noteq> None" unfolding geometry_mapping_def by blast
      then show ?thesis by simp
    qed
    show ?thesis
    proof (cases "\<exists>g \<in> set gs. tag_of g \<noteq> tag_of (hd gs)")
      case True
      then obtain g where g: "g \<in> set gs" and ne: "tag_of g \<noteq> tag_of (hd gs)" by blast
      have "the (tag_of g) \<noteq> the (tag_of (hd gs))"
      proof
        assume "the (tag_of g) = the (tag_of (hd gs))"
        with some [OF g] some [OF hd_in] have "tag_of g = tag_of (hd gs)" by simp
        with ne show False by contradiction
      qed
      then have "tg g \<noteq> tg (hd gs)" unfolding tg_def by simp
      moreover have "tg g \<in> T" unfolding T_def using g by (rule imageI)
      moreover have "finite T" unfolding T_def by simp
      ultimately have "card T > 1"
        using hd_T card_gt_one [of T "tg g" "tg (hd gs)"] by simp
      then have "length types > 1" using len by simp
      with run have "join_multi_single_type_mappings gs = Inl TypeMismatch"
        by (rule join_mismatch)
      then show ?thesis unfolding if_not_P [OF False] if_P [OF True] .
    next
      case same: False
      have "T = {tg (hd gs)}"
      proof
        show "T \<subseteq> {tg (hd gs)}"
        proof
          fix x assume "x \<in> T"
          then obtain g where g: "g \<in> set gs" and x: "x = tg g" unfolding T_def by blast
          from same g have "tag_of g = tag_of (hd gs)" by blast
          then show "x \<in> {tg (hd gs)}" using x unfolding tg_def by simp
        qed
        show "{tg (hd gs)} \<subseteq> T" using hd_T by simp
      qed
      then have "set types = {tg (hd gs)}" using elems by simp
      with dist have "types = [tg (hd gs)]"
        by (rule distinct_singleton)
      then have types: "types = [PStr (the (tag_of (hd gs)))]" unfolding tg_def .
      have "join_multi_single_type_mappings gs =
              Inr (PDict [(PStr TYPE_KEY, PStr (''Multi'' @ the (tag_of (hd gs)))),
                          (PStr COORDINATES, PList (map (the \<circ> coordinates_of) gs))])"
        using run unfolding types by (rule join_single)
      then show ?thesis unfolding if_not_P [OF False] if_not_P [OF same] .
    qed
  qed
qed

theorem join_multi_single_type_mappings_witness:
  "join_multi_single_type_mappings
     [PDict [(PStr TYPE_KEY, PStr LINE_STRING),
             (PStr COORDINATES, PList [PVec (Vec 0 0 0), PVec (Vec 1 0 0)])],
      PDict [(PStr TYPE_KEY, PStr LINE_STRING),
             (PStr COORDINATES, PList [PVec (Vec 0 0 0), PVec (Vec 0 1 0)])]]
   = Inr (PDict [(PStr TYPE_KEY, PStr MULTI_LINE_STRING),
                 (PStr COORDINATES, PList [PList [PVec (Vec 0 0 0), PVec (Vec 1 0 0)],
                                           PList [PVec (Vec 0 0 0), PVec (Vec 0 1 0)]])])
   \<and> join_multi_single_type_mappings
     [PDict [(PStr TYPE_KEY, PStr LINE_STRING),
             (PStr COORDINATES, PList [PVec (Vec 0 0 0), PVec (Vec 1 0 0)])],
      PDict [(PStr TYPE_KEY, PStr POLYGON),
             (PStr COORDINATES, PList [PVec (Vec 0 0 0), PVec (Vec 1 0 0), PVec (Vec 1 1 0),
                                       PVec (Vec 0 0 0)])]]
   = Inl TypeMismatch"
proof
  let ?a = "PDict [(PStr TYPE_KEY, PStr LINE_STRING),
             (PStr COORDINATES, PList [PVec (Vec 0 0 0), PVec (Vec 1 0 0)])]"
  let ?b = "PDict [(PStr TYPE_KEY, PStr LINE_STRING),
             (PStr COORDINATES, PList [PVec (Vec 0 0 0), PVec (Vec 0 1 0)])]"
  let ?c = "PDict [(PStr TYPE_KEY, PStr POLYGON),
             (PStr COORDINATES, PList [PVec (Vec 0 0 0), PVec (Vec 1 0 0), PVec (Vec 1 1 0),
                                       PVec (Vec 0 0 0)])]"
  have ab: "\<forall>g \<in> set [?a, ?b]. geometry_mapping g"
    by (simp add: geometry_mapping_def tag_of_def coordinates_of_def)
  have ac: "\<forall>g \<in> set [?a, ?c]. geometry_mapping g"
    by (simp add: geometry_mapping_def tag_of_def coordinates_of_def)
  show "join_multi_single_type_mappings [?a, ?b]
          = Inr (PDict [(PStr TYPE_KEY, PStr MULTI_LINE_STRING),
                 (PStr COORDINATES, PList [PList [PVec (Vec 0 0 0), PVec (Vec 1 0 0)],
                                           PList [PVec (Vec 0 0 0), PVec (Vec 0 1 0)]])])"
    by (subst join_multi_single_type_mappings_spec [OF ab])
       (simp add: tag_of_def coordinates_of_def)
  show "join_multi_single_type_mappings [?a, ?c] = Inl TypeMismatch"
    by (subst join_multi_single_type_mappings_spec [OF ac])
       (simp add: tag_of_def coordinates_of_def)
qed


section \<open>Parsing and rebuilding the interchange mapping\<close>

subsection \<open>Coordinates\<close>

text \<open>
  Modelled from the spec: the constructor \<^verbatim>\<open>Vector(...)\<close> and \<^verbatim>\<open>Vector.list(...)\<close> are
  not in the sources at hand. A vector is built from a sequence of two or three numbers
  (or from another vector); \<^verbatim>\<open>Vector.list\<close> converts every item of an iterable.
\<close>

fun Vector_new :: "pyval \<Rightarrow> error + vec" where
  "Vector_new (PVec v) = Inr v"
| "Vector_new (PList [PNum x, PNum y]) = Inr (Vec x y 0)"
| "Vector_new (PList [PNum x, PNum y, PNum z]) = Inr (Vec x y z)"
| "Vector_new (PTuple [PNum x, PNum y]) = Inr (Vec x y 0)"
| "Vector_new (PTuple [PNum x, PNum y, PNum z]) = Inr (Vec x y z)"
| "Vector_new v = Inl PyTypeError"

definition Vector_list :: "pyval \<Rightarrow> error + pyval" where
  "Vector_list items =
     (case py_iter items of
        Inl e \<Rightarrow> Inl e
      | Inr xs \<Rightarrow> (case sequence (map Vector_new xs) of
                    Inl e \<Rightarrow> Inl e
                  | Inr vs \<Rightarrow> Inr (PList (map PVec vs))))"

text \<open>
  \<^verbatim>\<open>isinstance(x, Sequence)\<close>, \<^verbatim>\<open>len(x)\<close>, \<^verbatim>\<open>x[0]\<close>, \<^verbatim>\<open>x[1:]\<close> and
  \<^verbatim>\<open>isinstance(x, numbers.Real)\<close>.
\<close>

fun is_Sequence :: "pyval \<Rightarrow> bool" where
  "is_Sequence (PList xs) = True"
| "is_Sequence (PTuple xs) = True"
| "is_Sequence (PStr s) = True"
| "is_Sequence v = False"

fun py_len :: "pyval \<Rightarrow> error + nat" where
  "py_len (PList xs) = Inr (length xs)"
| "py_len (PTuple xs) = Inr (length xs)"
| "py_len (PStr s) = Inr (length s)"
| "py_len (PDict d) = Inr (length d)"
| "py_len (PVec v) = Inr 3"
| "py_len v = Inl PyTypeError"

fun first_item :: "pyval \<Rightarrow> error + pyval" where
  "first_item (PList xs) = (case xs of [] \<Rightarrow> Inl PyIndexError | x # _ \<Rightarrow> Inr x)"
| "first_item (PTuple xs) = (case xs of [] \<Rightarrow> Inl PyIndexError | x # _ \<Rightarrow> Inr x)"
| "first_item (PStr s) = (case s of [] \<Rightarrow> Inl PyIndexError | c # _ \<Rightarrow> Inr (PStr [c]))"
| "first_item (PDict d) = (case map_of d (PNum 0) of None \<Rightarrow> Inl (PyKeyError (PNum 0)) | Some v \<Rightarrow> Inr v)"
| "first_item (PVec v) = Inr (PNum (vx v))"
| "first_item v = Inl PyTypeError"

fun is_Real :: "pyval \<Rightarrow> bool" where
  "is_Real (PNum r) = True"
| "is_Real v = False"

text \<open>\<^verbatim>\<open>_is_coordinate_sequence\<close> and \<^verbatim>\<open>_parse_polygon\<close>.\<close>

definition is_coordinate_sequence :: "pyval \<Rightarrow> error + bool" where
  "is_coordinate_sequence coordinates =
     (if \<not> is_Sequence coordinates then Inl InvalidCoordinateSequence
      else (case py_len coordinates of
        Inl e \<Rightarrow> Inl e
      | Inr n \<Rightarrow>
          if n = 0 then Inl InvalidCoordinateSequence
          else (case first_item coordinates of
            Inl e \<Rightarrow> Inl e
          | Inr item \<Rightarrow>
              (case py_len item of
                 Inl e \<Rightarrow> Inl e
               | Inr m \<Rightarrow>
                   if m = 0 then Inl InvalidCoordinateSequence
                   else (case first_item item of
                     Inl e \<Rightarrow> Inl e
                   | Inr x \<Rightarrow> Inr (is_Real x))))))"

fun rest_items :: "pyval \<Rightarrow> error + pyval list" where
  "rest_items (PList xs) = Inr (tl xs)"
| "rest_items (PTuple xs) = Inr (tl xs)"
| "rest_items (PStr s) = Inr (map (\<lambda>c. PStr [c]) (tl s))"
| "rest_items v = Inl PyTypeError"

definition parse_polygon :: "pyval \<Rightarrow> error + pyval" where
  "parse_polygon coordinates =
     (case is_coordinate_sequence coordinates of
        Inl e \<Rightarrow> Inl e
      | Inr flat \<Rightarrow>
          (case (if flat then Inr (coordinates, [])
                 else (case first_item coordinates of
                        Inl e \<Rightarrow> Inl e
                      | Inr exterior \<Rightarrow>
                          (case rest_items coordinates of
                             Inl e \<Rightarrow> Inl e
                           | Inr holes \<Rightarrow> Inr (exterior, holes)))) of
             Inl e \<Rightarrow> Inl e
           | Inr (exterior, holes) \<Rightarrow>
               (case Vector_list exterior of
                  Inl e \<Rightarrow> Inl e
                | Inr ext \<Rightarrow>
                    (case sequence (map Vector_list holes) of
                       Inl e \<Rightarrow> Inl e
                     | Inr hs \<Rightarrow> Inr (PTuple [ext, PList hs])))))"

text \<open>
  The conversion of the \<^verbatim>\<open>coordinates\<close> entry inside \<^verbatim>\<open>parse\<close> (lines 311 to 320),
  by the value of \<^verbatim>\<open>type_\<close>.
\<close>

definition parse_coordinates :: "pyval \<Rightarrow> pyval \<Rightarrow> error + pyval" where
  "parse_coordinates type' coordinates =
     (if type' = PStr POINT then
        (case Vector_new coordinates of Inl e \<Rightarrow> Inl e | Inr v \<Rightarrow> Inr (PVec v))
      else if type' \<in> set [PStr LINE_STRING, PStr MULTI_POINT] then Vector_list coordinates
      else if type' = PStr POLYGON then parse_polygon coordinates
      else if type' = PStr MULTI_LINE_STRING then
        (case py_iter coordinates of
           Inl e \<Rightarrow> Inl e
         | Inr vs \<Rightarrow> (case sequence (map Vector_list vs) of
                        Inl e \<Rightarrow> Inl e | Inr ls \<Rightarrow> Inr (PList ls)))
      else if type' = PStr MULTI_POLYGON then
        (case py_iter coordinates of
           Inl e \<Rightarrow> Inl e
         | Inr vs \<Rightarrow> (case sequence (map parse_polygon vs) of
                        Inl e \<Rightarrow> Inl e | Inr ps \<Rightarrow> Inr (PList ps)))
      else Inr coordinates)"

subsection \<open>\<^verbatim>\<open>parse\<close>\<close>

text \<open>
  The recursion of \<^verbatim>\<open>parse\<close>, \<^verbatim>\<open>_rebuild\<close> and \<^verbatim>\<open>_iter\<close> descends into entries of
  the mapping, which are smaller than the mapping.
\<close>

lemma dict_get_size: "dict_get g k = Inr v \<Longrightarrow> size v < size g"
proof (cases g)
  case (PDict d)
  assume a: "dict_get g k = Inr v"
  show ?thesis
  proof (cases "map_of d (PStr k)")
    case None
    with a PDict show ?thesis by auto
  next
    case (Some w)
    then have "(PStr k, w) \<in> set d" by (rule map_of_SomeD)
    then have "size w < size_list (size_prod size size) d + 1"
      by (induction d) auto
    with a PDict Some show ?thesis by simp
  qed
qed auto

lemma py_iter_size: "py_iter v = Inr xs \<Longrightarrow> x \<in> set xs \<Longrightarrow> size x \<le> size v"
proof (cases v)
  case (PList ys)
  assume "py_iter v = Inr xs" "x \<in> set xs"
  with PList have "x \<in> set ys" by simp
  then have "size x \<le> size_list size ys" by (induction ys) auto
  with PList show ?thesis by simp
next
  case (PTuple ys)
  assume "py_iter v = Inr xs" "x \<in> set xs"
  with PTuple have "x \<in> set ys" by simp
  then have "size x \<le> size_list size ys" by (induction ys) auto
  with PTuple show ?thesis by simp
next
  case (PDict d)
  assume "py_iter v = Inr xs" "x \<in> set xs"
  with PDict obtain y where "(x, y) \<in> set d" by auto
  then have "size x \<le> size_list (size_prod size size) d" by (induction d) auto
  with PDict show ?thesis by simp
qed auto

text \<open>
  \<^verbatim>\<open>parse\<close> changes the mapping in place and returns it; the model returns the changed
  mapping. The fourth branch of the source tests the builtin \<^verbatim>\<open>type\<close> (not the local
  \<^verbatim>\<open>type_\<close>) for membership in the set of the six coordinate tags, and stores the
  converted coordinates under the key \<^verbatim>\<open>coordinates\<close> (the converted value itself, not
  the string \<^verbatim>\<open>COORDINATES\<close>); both are kept as written.
\<close>

function parse :: "pyval \<Rightarrow> error + pyval" where
  "parse geo_mapping =
     (case dict_get geo_mapping TYPE_KEY of
        Inl e \<Rightarrow> Inl e
      | Inr type' \<Rightarrow>
          if type' = PNone then Inl (MissingKey TYPE_KEY)
          else if type' = PStr FEATURE_COLLECTION then
            (case dict_get geo_mapping FEATURES of
               Inl e \<Rightarrow> Inl e
             | Inr features \<Rightarrow>
                 if truthy features then
                   (case py_iter features of
                      Inl e \<Rightarrow> Inl e
                    | Inr fs \<Rightarrow>
                        (case sequence (map parse fs) of
                           Inl e \<Rightarrow> Inl e
                         | Inr ps \<Rightarrow> setitem geo_mapping (PStr FEATURES) (PList ps)))
                 else Inl (MissingKey FEATURES))
          else if type' = PStr GEOMETRY_COLLECTION then
            (case dict_get geo_mapping GEOMETRIES of
               Inl e \<Rightarrow> Inl e
             | Inr geometries \<Rightarrow>
                 if truthy geometries then
                   (case py_iter geometries of
                      Inl e \<Rightarrow> Inl e
                    | Inr gs \<Rightarrow>
                        (case sequence (map parse gs) of
                           Inl e \<Rightarrow> Inl e
                         | Inr ps \<Rightarrow> setitem geo_mapping (PStr GEOMETRIES) (PList ps)))
                 else Inl (MissingKey GEOMETRIES))
          else if type' = PStr FEATURE then
            (if contains_key geo_mapping GEOMETRY then
               (case dict_get geo_mapping GEOMETRY of
                  Inl e \<Rightarrow> Inl e
                | Inr geometry \<Rightarrow>
                    if truthy geometry then
                      (case parse geometry of
                         Inl e \<Rightarrow> Inl e
                       | Inr p \<Rightarrow> setitem geo_mapping (PStr GEOMETRY) p)
                    else setitem geo_mapping (PStr GEOMETRY) PNone)
             else Inl (MissingKey GEOMETRY))
          else if PType \<in> set [PStr POINT, PStr LINE_STRING, PStr POLYGON, PStr MULTI_POINT,
                                PStr MULTI_LINE_STRING, PStr MULTI_POLYGON] then
            (case dict_get geo_mapping COORDINATES of
               Inl e \<Rightarrow> Inl e
             | Inr coordinates \<Rightarrow>
                 if coordinates = PNone then Inl (MissingKey COORDINATES)
                 else (case parse_coordinates type' coordinates of
                         Inl e \<Rightarrow> Inl e
                       | Inr parsed \<Rightarrow> setitem geo_mapping parsed parsed))
          else Inl (UnknownType type'))"
  by pat_completeness auto
termination
proof (relation "measure size")
  show "wf (measure size)" by simp
next
  fix geo_mapping type' features fs f
  assume "dict_get geo_mapping FEATURES = Inr features" "py_iter features = Inr fs" "f \<in> set fs"
  then show "(f, geo_mapping) \<in> measure size"
    using dict_get_size py_iter_size by fastforce
next
  fix geo_mapping type' geometries gs g
  assume "dict_get geo_mapping GEOMETRIES = Inr geometries" "py_iter geometries = Inr gs" "g \<in> set gs"
  then show "(g, geo_mapping) \<in> measure size"
    using dict_get_size py_iter_size by fastforce
next
  fix geo_mapping type' geometry
  assume "dict_get geo_mapping GEOMETRY = Inr geometry"
  then show "(geometry, geo_mapping) \<in> measure size"
    using dict_get_size by fastforce
qed


declare parse.simps [simp del]

subsection \<open>The proxy, \<^verbatim>\<open>_rebuild\<close> and leaf iteration\<close>

record geo_proxy =
  root :: pyval

definition GeoProxy :: "pyval \<Rightarrow> error + geo_proxy" where
  "GeoProxy geo_mapping =
     (case parse geo_mapping of Inl e \<Rightarrow> Inl e | Inr r \<Rightarrow> Inr \<lparr>root = r\<rparr>)"

text \<open>
  \<^verbatim>\<open>dict(x)\<close>: a copy of a dict; for any other iterable, the dict of its items, each of
  which must be an iterable of two items, a hashable key and a value (\<^verbatim>\<open>ValueError\<close>
  otherwise); \<^verbatim>\<open>TypeError\<close> for a value that cannot be iterated, such as \<^verbatim>\<open>None\<close>.
\<close>

definition pair_item :: "pyval \<Rightarrow> error + (pyval \<times> pyval)" where
  "pair_item item =
     (case py_iter item of
        Inl e \<Rightarrow> Inl PyTypeError
      | Inr kv \<Rightarrow>
          (case kv of
             [k, v] \<Rightarrow> if hashable k then Inr (k, v) else Inl PyTypeError
           | _ \<Rightarrow> Inl PyValueError))"

fun py_dict :: "pyval \<Rightarrow> error + pyval" where
  "py_dict (PDict d) = Inr (PDict d)"
| "py_dict v =
     (case py_iter v of
        Inl e \<Rightarrow> Inl PyTypeError
      | Inr items \<Rightarrow>
          (case sequence (map pair_item items) of
             Inl e \<Rightarrow> Inl e
           | Inr kvs \<Rightarrow> Inr (PDict (fold (\<lambda>(k, v). AList.update k v) kvs []))))"

text \<open>The tuple \<^verbatim>\<open>(v.x, v.y)\<close>, the list of such tuples, and unpacking a pair.\<close>

fun xy :: "pyval \<Rightarrow> error + pyval" where
  "xy (PVec v) = Inr (PTuple [PNum (vx v), PNum (vy v)])"
| "xy v = Inl (PyAttributeError ''x'')"

definition xy_list :: "pyval \<Rightarrow> error + pyval" where
  "xy_list coordinates =
     (case py_iter coordinates of
        Inl e \<Rightarrow> Inl e
      | Inr vs \<Rightarrow> (case sequence (map xy vs) of Inl e \<Rightarrow> Inl e | Inr ps \<Rightarrow> Inr (PList ps)))"

definition unpack2 :: "pyval \<Rightarrow> error + (pyval \<times> pyval)" where
  "unpack2 v =
     (case py_iter v of
        Inl e \<Rightarrow> Inl e
      | Inr xs \<Rightarrow> (case xs of [a, b] \<Rightarrow> Inr (a, b) | _ \<Rightarrow> Inl PyValueError))"

text \<open>The Polygon branch of \<^verbatim>\<open>_rebuild\<close> (lines 374 to 379).\<close>

definition rebuild_polygon :: "pyval \<Rightarrow> error + pyval" where
  "rebuild_polygon coords =
     (case unpack2 coords of
        Inl e \<Rightarrow> Inl e
      | Inr (extrior, holes) \<Rightarrow>
          (case xy_list extrior of
             Inl e \<Rightarrow> Inl e
           | Inr coordinates \<Rightarrow>
               if truthy holes then
                 (case py_iter holes of
                    Inl e \<Rightarrow> Inl e
                  | Inr hs \<Rightarrow>
                      (case sequence (map xy_list hs) of
                         Inl e \<Rightarrow> Inl e
                       | Inr rings \<Rightarrow> Inr (PList (coordinates # rings))))
               else Inr coordinates))"

lemma getitem_size: "getitem g k = Inr v \<Longrightarrow> size v < size g"
proof (cases g)
  case (PDict d)
  assume a: "getitem g k = Inr v"
  with PDict have "map_of d (PStr k) = Some v" by (auto split: option.splits)
  then have "(PStr k, v) \<in> set d" by (rule map_of_SomeD)
  then have "size v < size_list (size_prod size size) d + 1"
    by (induction d) auto
  with PDict show ?thesis by simp
qed auto

lemma sequence_Inr:
  "sequence rs = Inr xs \<Longrightarrow> rs = map Inr xs"
proof (induction rs arbitrary: xs)
  case Nil
  then show ?case by simp
next
  case (Cons r rs)
  then show ?case by (cases r) (auto split: sum.splits)
qed

lemma set_update_subset: "set (AList.update k v al) \<subseteq> insert (k, v) (set al)"
  by (induction al) auto

lemma set_fold_update:
  "set (fold (\<lambda>(k, v). AList.update k v) kvs al) \<subseteq> set kvs \<union> set al"
proof (induction kvs arbitrary: al)
  case Nil
  show ?case by simp
next
  case (Cons kv kvs)
  obtain k v where kv: "kv = (k, v)" by (cases kv)
  have "set (fold (\<lambda>(k, v). AList.update k v) kvs (AList.update k v al))
          \<subseteq> set kvs \<union> set (AList.update k v al)"
    by (rule Cons.IH)
  also have "\<dots> \<subseteq> set kvs \<union> insert (k, v) (set al)"
    using set_update_subset [of k v al] by blast
  finally show ?case unfolding kv by auto
qed

lemma pair_item_size: "pair_item item = Inr (k, v) \<Longrightarrow> size v \<le> size item"
proof -
  assume a: "pair_item item = Inr (k, v)"
  then obtain kv where it: "py_iter item = Inr kv"
    by (auto simp: pair_item_def split: sum.splits)
  with a have "kv = [k, v]"
    by (auto simp: pair_item_def split: list.splits if_splits)
  with it show ?thesis using py_iter_size [of item kv v] by simp
qed

lemma py_iter_item_size:
  assumes "py_iter g = Inr items" and "item \<in> set items"
    and "pair_item item = Inr (k, v)"
  shows "size v < size g"
proof (cases g)
  case (PList xs)
  with assms(1,2) have "item \<in> set xs" by simp
  then have "size item \<le> size_list size xs" by (induction xs) auto
  with PList pair_item_size [OF assms(3)] show ?thesis by simp
next
  case (PTuple xs)
  with assms(1,2) have "item \<in> set xs" by simp
  then have "size item \<le> size_list size xs" by (induction xs) auto
  with PTuple pair_item_size [OF assms(3)] show ?thesis by simp
next
  case (PDict d)
  with assms(1,2) obtain w where "(item, w) \<in> set d" by auto
  then have "size item \<le> size_list (size_prod size size) d" by (induction d) auto
  with PDict pair_item_size [OF assms(3)] show ?thesis by simp
next
  case (PStr s)
  with assms(1,2) obtain c where "item = PStr [c]" by auto
  with assms(3) show ?thesis by (simp add: pair_item_def)
next
  case (PVec w)
  with assms(1,2) obtain r where "item = PNum r" by auto
  with assms(3) show ?thesis by (simp add: pair_item_def)
qed (use assms in auto)

lemma py_dict_entry_size:
  assumes "py_dict g = Inr g'" and "getitem g' key = Inr v"
  shows "size v < size g"
proof (cases "\<exists>d. g = PDict d")
  case True
  with assms show ?thesis using getitem_size by auto
next
  case False
  with assms(1) obtain items kvs where it: "py_iter g = Inr items"
    and sq: "sequence (map pair_item items) = Inr kvs"
    and g': "g' = PDict (fold (\<lambda>(k, v). AList.update k v) kvs [])"
    by (cases g) (auto split: sum.splits)
  from assms(2) g' have "map_of (fold (\<lambda>(k, v). AList.update k v) kvs []) (PStr key) = Some v"
    by (auto split: option.splits)
  then have "(PStr key, v) \<in> set (fold (\<lambda>(k, v). AList.update k v) kvs [])"
    by (rule map_of_SomeD)
  then have "(PStr key, v) \<in> set kvs" using set_fold_update [of kvs "[]"] by auto
  moreover from sq have "map pair_item items = map Inr kvs" by (rule sequence_Inr)
  ultimately obtain item where "item \<in> set items" and "pair_item item = Inr (PStr key, v)"
    by (metis (no_types, lifting) in_set_conv_nth length_map nth_map)
  with it show ?thesis by (rule py_iter_item_size)
qed

text \<open>
  \<^verbatim>\<open>_rebuild\<close>. In the MultiLineString branch the source iterates over the lines and
  reads \<^verbatim>\<open>.x\<close> and \<^verbatim>\<open>.y\<close> of each line; there is no MultiPolygon branch.
\<close>

function rebuild :: "pyval \<Rightarrow> error + pyval" where
  "rebuild geo_mapping =
     (case py_dict geo_mapping of
        Inl e \<Rightarrow> Inl e
      | Inr geo_interface \<Rightarrow>
          (case getitem geo_interface TYPE_KEY of
             Inl e \<Rightarrow> Inl e
           | Inr type' \<Rightarrow>
               if type' = PStr FEATURE_COLLECTION then
                 (case getitem geo_interface FEATURES of
                    Inl e \<Rightarrow> Inl e
                  | Inr features \<Rightarrow>
                      (case py_iter features of
                         Inl e \<Rightarrow> Inl e
                       | Inr fs \<Rightarrow>
                           (case sequence (map rebuild fs) of
                              Inl e \<Rightarrow> Inl e
                            | Inr rs \<Rightarrow> setitem geo_interface (PStr FEATURES) (PList rs))))
               else if type' = PStr GEOMETRY_COLLECTION then
                 (case getitem geo_interface GEOMETRIES of
                    Inl e \<Rightarrow> Inl e
                  | Inr geometries \<Rightarrow>
                      (case py_iter geometries of
                         Inl e \<Rightarrow> Inl e
                       | Inr gs \<Rightarrow>
                           (case sequence (map rebuild gs) of
                              Inl e \<Rightarrow> Inl e
                            | Inr rs \<Rightarrow> setitem geo_interface (PStr GEOMETRIES) (PList rs))))
               else if type' = PStr FEATURE then
                 (case getitem geo_interface GEOMETRY of
                    Inl e \<Rightarrow> Inl e
                  | Inr geometry \<Rightarrow>
                      (case rebuild geometry of
                         Inl e \<Rightarrow> Inl e
                       | Inr r \<Rightarrow> setitem geo_interface (PStr GEOMETRY) r))
               else if type' = PStr POINT then
                 (case getitem geo_interface COORDINATES of
                    Inl e \<Rightarrow> Inl e
                  | Inr v \<Rightarrow>
                      (case xy v of
                         Inl e \<Rightarrow> Inl e
                       | Inr p \<Rightarrow> setitem geo_interface (PStr COORDINATES) p))
               else if type' \<in> set [PStr LINE_STRING, PStr MULTI_POINT] then
                 (case getitem geo_interface COORDINATES of
                    Inl e \<Rightarrow> Inl e
                  | Inr coordinates \<Rightarrow>
                      (case xy_list coordinates of
                         Inl e \<Rightarrow> Inl e
                       | Inr ps \<Rightarrow> setitem geo_interface (PStr COORDINATES) ps))
               else if type' = PStr MULTI_LINE_STRING then
                 (case getitem geo_interface COORDINATES of
                    Inl e \<Rightarrow> Inl e
                  | Inr coordinates \<Rightarrow>
                      (case xy_list coordinates of
                         Inl e \<Rightarrow> Inl e
                       | Inr ps \<Rightarrow> setitem geo_interface (PStr COORDINATES) ps))
               else if type' = PStr POLYGON then
                 (case getitem geo_interface COORDINATES of
                    Inl e \<Rightarrow> Inl e
                  | Inr coords \<Rightarrow>
                      (case rebuild_polygon coords of
                         Inl e \<Rightarrow> Inl e
                       | Inr ps \<Rightarrow> setitem geo_interface (PStr COORDINATES) ps))
               else Inr geo_interface))"
  by pat_completeness auto
termination
proof (relation "measure size")
  show "wf (measure size)" by simp
next
  fix geo_mapping geo_interface type' features fs f
  assume "py_dict geo_mapping = Inr geo_interface"
    "getitem geo_interface FEATURES = Inr features" "py_iter features = Inr fs" "f \<in> set fs"
  then have "size features < size geo_mapping" and "size f \<le> size features"
    using py_dict_entry_size py_iter_size by blast+
  then show "(f, geo_mapping) \<in> measure size" by simp
next
  fix geo_mapping geo_interface type' geometries gs g
  assume "py_dict geo_mapping = Inr geo_interface"
    "getitem geo_interface GEOMETRIES = Inr geometries" "py_iter geometries = Inr gs" "g \<in> set gs"
  then have "size geometries < size geo_mapping" and "size g \<le> size geometries"
    using py_dict_entry_size py_iter_size by blast+
  then show "(g, geo_mapping) \<in> measure size" by simp
next
  fix geo_mapping geo_interface type' geometry
  assume "py_dict geo_mapping = Inr geo_interface" "getitem geo_interface GEOMETRY = Inr geometry"
  then have "size geometry < size geo_mapping" by (rule py_dict_entry_size)
  then show "(geometry, geo_mapping) \<in> measure size" by simp
qed

declare rebuild.simps [simp del]

definition geo_interface :: "geo_proxy \<Rightarrow> error + pyval" where
  "geo_interface p = rebuild (root p)"

text \<open>
  \<^verbatim>\<open>GeoProxy.__iter__\<close>: the inner generator \<^verbatim>\<open>_iter\<close> yields at most one item, so the
  produced sequence is a list of at most one value.
\<close>

function iter_root :: "pyval \<Rightarrow> error + pyval list" where
  "iter_root root' =
     (case getitem root' TYPE_KEY of
        Inl e \<Rightarrow> Inl e
      | Inr type' \<Rightarrow>
          if type' = PStr FEATURE_COLLECTION then
            (case getitem root' FEATURES of Inl e \<Rightarrow> Inl e | Inr fs \<Rightarrow> iter_root fs)
          else if type' = PStr GEOMETRY_COLLECTION then
            (case getitem root' GEOMETRIES of Inl e \<Rightarrow> Inl e | Inr gs \<Rightarrow> iter_root gs)
          else if type' = PStr FEATURE then
            (case getitem root' GEOMETRY of Inl e \<Rightarrow> Inl e | Inr g \<Rightarrow> Inr [g])
          else Inr [root'])"
  by pat_completeness auto
termination
proof (relation "measure size")
  show "wf (measure size)" by simp
next
  fix root' type' fs
  assume "getitem root' FEATURES = Inr fs"
  then show "(fs, root') \<in> measure size" using getitem_size by fastforce
next
  fix root' type' gs
  assume "getitem root' GEOMETRIES = Inr gs"
  then show "(gs, root') \<in> measure size" using getitem_size by fastforce
qed

declare iter_root.simps [simp del]

definition geo_proxy_iter :: "geo_proxy \<Rightarrow> error + pyval list" where
  "geo_proxy_iter p = iter_root (root p)"

subsection \<open>Behaviour on recognized input\<close>

text \<open>
  C1. A mapping whose \<^verbatim>\<open>type\<close> is one of the nine recognized tags and whose required key
  is present must not fail with the unknown-type error. The code does fail so: for the
  Point mapping with coordinates (0, 0) \<^verbatim>\<open>parse\<close> raises the \<^verbatim>\<open>TypeError\<close> of its last
  branch, because the branch for the six coordinate tags is never entered.
\<close>

theorem parse_point_raises_unknown_type:
  "parse (PDict [(PStr TYPE_KEY, PStr POINT), (PStr COORDINATES, PTuple [PNum 0, PNum 0])])
     = Inl (UnknownType (PStr POINT))"
  by (simp add: parse.simps)

text \<open>
  C2. Rebuilding a parsed mapping must give back the wire form. The Feature without
  geometry is accepted by \<^verbatim>\<open>parse\<close> (its geometry is stored as \<^verbatim>\<open>None\<close>), and
  rebuilding the proxy made from it raises \<^verbatim>\<open>TypeError\<close>, since \<^verbatim>\<open>_rebuild\<close> is applied
  to the \<^verbatim>\<open>None\<close> geometry.
\<close>

theorem rebuild_parsed_feature_raises:
  "GeoProxy (PDict [(PStr TYPE_KEY, PStr FEATURE), (PStr GEOMETRY, PNone)])
     = Inr \<lparr>root = PDict [(PStr TYPE_KEY, PStr FEATURE), (PStr GEOMETRY, PNone)]\<rparr>
   \<and> geo_interface \<lparr>root = PDict [(PStr TYPE_KEY, PStr FEATURE), (PStr GEOMETRY, PNone)]\<rparr>
     = Inl PyTypeError"
  by (simp add: GeoProxy_def geo_interface_def parse.simps rebuild.simps)

text \<open>
  C5. Leaf iteration must descend through a GeometryCollection into its geometries. For
  the proxy of a GeometryCollection holding one Feature, iteration raises \<^verbatim>\<open>TypeError\<close>:
  \<^verbatim>\<open>_iter\<close> is called on the list of geometries and subscripts it with the string
  \<^verbatim>\<open>'type'\<close>.
\<close>

theorem iter_geometry_collection_raises:
  "GeoProxy (PDict [(PStr TYPE_KEY, PStr GEOMETRY_COLLECTION),
                    (PStr GEOMETRIES, PList [PDict [(PStr TYPE_KEY, PStr FEATURE),
                                                    (PStr GEOMETRY, PNone)]])])
     = Inr \<lparr>root = PDict [(PStr TYPE_KEY, PStr GEOMETRY_COLLECTION),
                           (PStr GEOMETRIES, PList [PDict [(PStr TYPE_KEY, PStr FEATURE),
                                                           (PStr GEOMETRY, PNone)]])]\<rparr>
   \<and> geo_proxy_iter \<lparr>root = PDict [(PStr TYPE_KEY, PStr GEOMETRY_COLLECTION),
                           (PStr GEOMETRIES, PList [PDict [(PStr TYPE_KEY, PStr FEATURE),
                                                           (PStr GEOMETRY, PNone)]])]\<rparr>
     = Inl PyTypeError"
  by (simp add: GeoProxy_def geo_proxy_iter_def parse.simps iter_root.simps)


section \<open>Linear rings and polygons\<close>

text \<open>
  \<^verbatim>\<open>math.isclose(a, b, rel_tol, abs_tol)\<close> of the Python standard library.

  Modelled from the spec: \<^verbatim>\<open>Vector.isclose\<close> is not in the sources at hand; a vertex
  sequence is closed when "first \<approx> last within tolerance". The components are compared
  with \<^verbatim>\<open>math.isclose\<close>, relative tolerance \<open>10\<^sup>-\<^sup>9\<close> and absolute tolerance
  \<open>10\<^sup>-\<^sup>1\<^sup>2\<close>. The results below use only that \<open>isclose\<close> is reflexive and symmetric.
\<close>

definition math_isclose :: "real \<Rightarrow> real \<Rightarrow> real \<Rightarrow> real \<Rightarrow> bool" where
  "math_isclose a b rel_tol abs_tol \<longleftrightarrow>
     a = b \<or> \<bar>a - b\<bar> \<le> max (rel_tol * max \<bar>a\<bar> \<bar>b\<bar>) abs_tol"

definition isclose :: "vec \<Rightarrow> vec \<Rightarrow> bool" where
  "isclose p q \<longleftrightarrow>
     math_isclose (vx p) (vx q) (1 / 10 ^ 9) (1 / 10 ^ 12)
     \<and> math_isclose (vy p) (vy q) (1 / 10 ^ 9) (1 / 10 ^ 12)
     \<and> math_isclose (vz p) (vz q) (1 / 10 ^ 9) (1 / 10 ^ 12)"

text \<open>
  \<^verbatim>\<open>is_linear_ring\<close>, \<^verbatim>\<open>linear_ring\<close> and \<^verbatim>\<open>polygon_mapping\<close>. The source changes the
  list in place (\<^verbatim>\<open>append\<close>, \<^verbatim>\<open>reverse\<close>) and returns it.

  The orientation test \<^verbatim>\<open>has_clockwise_orientation\<close> of \<^verbatim>\<open>ezdxf.math\<close> is not in the
  sources at hand and decides on a sum of floating-point products. It is a parameter of
  \<^verbatim>\<open>linear_ring\<close> and of every function that reaches \<^verbatim>\<open>linear_ring\<close>; nothing is assumed
  about it.
\<close>

definition is_linear_ring :: "vec list \<Rightarrow> error + bool" where
  "is_linear_ring points =
     (case points of [] \<Rightarrow> Inl PyIndexError | p # _ \<Rightarrow> Inr (isclose p (last points)))"

definition linear_ring :: "(vec list \<Rightarrow> bool) \<Rightarrow> vec list \<Rightarrow> bool \<Rightarrow> error + vec list" where
  "linear_ring has_clockwise_orientation points ccw =
     (if length points < 3 then Inl (TooFewVertices (length points))
      else
        let points = (if \<not> isclose (hd points) (last points) then points @ [hd points]
                      else points)
        in if has_clockwise_orientation points then
             (if ccw then Inr (rev points) else Inr points)
           else
             (if \<not> ccw then Inr (rev points) else Inr points))"

definition polygon_mapping ::
  "(vec list \<Rightarrow> bool) \<Rightarrow> vec list \<Rightarrow> vec list list option \<Rightarrow> error + pyval" where
  "polygon_mapping has_clockwise_orientation points holes =
     (case linear_ring has_clockwise_orientation points True of
        Inl e \<Rightarrow> Inl e
      | Inr exterior \<Rightarrow>
          (case (if holes \<noteq> None \<and> holes \<noteq> Some [] then
                   (case sequence (map (\<lambda>hole. linear_ring has_clockwise_orientation hole False)
                                    (the holes)) of
                      Inl e \<Rightarrow> Inl e
                    | Inr hs \<Rightarrow> Inr (PList (map (\<lambda>r. PList (map PVec r)) (exterior # hs))))
                 else Inr (PList (map PVec exterior))) of
             Inl e \<Rightarrow> Inl e
           | Inr rings \<Rightarrow> Inr (PDict [(PStr TYPE_KEY, PStr POLYGON), (PStr COORDINATES, rings)])))"

lemma math_isclose_refl: "math_isclose a a r t"
  by (simp add: math_isclose_def)

lemma math_isclose_sym: "math_isclose a b r t \<Longrightarrow> math_isclose b a r t"
  unfolding math_isclose_def by (auto simp: abs_minus_commute max.commute)

lemma isclose_refl: "isclose p p"
  by (simp add: isclose_def math_isclose_refl)

lemma isclose_sym: "isclose p q \<Longrightarrow> isclose q p"
  by (simp add: isclose_def math_isclose_sym)

lemma linear_ring_too_few:
  "length points < 3 \<Longrightarrow>
     linear_ring has_clockwise_orientation points ccw = Inl (TooFewVertices (length points))"
  by (simp add: linear_ring_def)

text \<open>
  A ring whose first and last points are close, but not equal, is returned as it is or
  reversed: no closing point is appended.
\<close>

lemma linear_ring_near_closed:
  assumes "3 \<le> length points" and "isclose (hd points) (last points)"
  shows "linear_ring has_clockwise_orientation points ccw = Inr points
         \<or> linear_ring has_clockwise_orientation points ccw = Inr (rev points)"
  using assms by (simp add: linear_ring_def)

definition near_closed_square :: "vec list" where
  "near_closed_square =
     [Vec 0 0 0, Vec 10 0 0, Vec 10 10 0, Vec 0 10 0, Vec (1 / 2 ^ 44) 0 0]"

lemma near_closed_square_ends:
  "3 \<le> length near_closed_square"
  "isclose (hd near_closed_square) (last near_closed_square)"
  "hd near_closed_square \<noteq> last near_closed_square"
  "hd (rev near_closed_square) \<noteq> last (rev near_closed_square)"
  by (simp_all add: near_closed_square_def isclose_def math_isclose_def)

text \<open>
  C3. \<^verbatim>\<open>linear_ring\<close> must return a closed ring, first coordinate equal to the last, and
  every Polygon of \<^verbatim>\<open>polygon_mapping\<close> must have a closed exterior ring. The code does not:
  for the five points \<open>(0,0)\<close>, \<open>(10,0)\<close>, \<open>(10,10)\<close>, \<open>(0,10)\<close>, \<open>(2\<^sup>-\<^sup>4\<^sup>4,0)\<close>, whose last
  point is close to the first one but not equal to it, no closing point is appended.
  Whatever the orientation test answers and whatever winding is asked for, the ring that
  \<^verbatim>\<open>linear_ring\<close> returns has a first point different from its last point, and so has the
  exterior ring of the Polygon that \<^verbatim>\<open>polygon_mapping\<close> makes of these points.
\<close>

theorem linear_ring_returns_open_ring:
  "(\<exists>ring. linear_ring has_clockwise_orientation
             [Vec 0 0 0, Vec 10 0 0, Vec 10 10 0, Vec 0 10 0, Vec (1 / 2 ^ 44) 0 0] ccw
           = Inr ring
         \<and> hd ring \<noteq> last ring)
   \<and> (\<exists>ring. polygon_mapping has_clockwise_orientation
               [Vec 0 0 0, Vec 10 0 0, Vec 10 10 0, Vec 0 10 0, Vec (1 / 2 ^ 44) 0 0] None
             = Inr (PDict [(PStr TYPE_KEY, PStr POLYGON),
                           (PStr COORDINATES, PList (map PVec ring))])
           \<and> hd ring \<noteq> last ring)"
proof -
  have ring: "\<exists>ring. linear_ring has_clockwise_orientation near_closed_square c = Inr ring
                \<and> hd ring \<noteq> last ring" for c
    using linear_ring_near_closed [OF near_closed_square_ends(1,2), of has_clockwise_orientation c]
      near_closed_square_ends(3,4)
    by auto
  from ring [of True] obtain exterior where
    ext: "linear_ring has_clockwise_orientation near_closed_square True = Inr exterior"
    and ne: "hd exterior \<noteq> last exterior"
    by blast
  have "polygon_mapping has_clockwise_orientation near_closed_square None
          = Inr (PDict [(PStr TYPE_KEY, PStr POLYGON),
                        (PStr COORDINATES, PList (map PVec exterior))])"
    by (simp add: polygon_mapping_def ext)
  with ne ring [of ccw] show ?thesis
    unfolding near_closed_square_def by blast
qed


section \<open>Mapping DXF entities\<close>

text \<open>\<^verbatim>\<open>line_string_mapping\<close>, \<^verbatim>\<open>geometry_collection_mapping\<close> and
  \<^verbatim>\<open>_line_string_or_polygon_mapping\<close>.\<close>

definition line_string_mapping :: "vec list \<Rightarrow> pyval" where
  "line_string_mapping points =
     PDict [(PStr TYPE_KEY, PStr LINE_STRING), (PStr COORDINATES, PList (map PVec points))]"

definition geometry_collection_mapping :: "pyval list \<Rightarrow> pyval" where
  "geometry_collection_mapping geometries =
     PDict [(PStr TYPE_KEY, PStr GEOMETRY_COLLECTION), (PStr GEOMETRIES, PList geometries)]"

definition line_string_or_polygon_mapping ::
  "(vec list \<Rightarrow> bool) \<Rightarrow> vec list \<Rightarrow> bool \<Rightarrow> error + pyval" where
  "line_string_or_polygon_mapping has_clockwise_orientation points force_line_string =
     (let len = length points in
      if len < 2 then Inl (TooFewVertices len)
      else if len = 2 \<or> force_line_string then Inr (line_string_mapping points)
      else (case is_linear_ring points of
              Inl e \<Rightarrow> Inl e
            | Inr ring \<Rightarrow>
                if ring then polygon_mapping has_clockwise_orientation points None
                else Inr (line_string_mapping points)))"

subsection \<open>Hatches\<close>

text \<open>
  Modelled from the spec: the HATCH entity and its boundary paths belong to the entity layer,
  which is not in the sources at hand. A hatch hands over "an ordered boundary-path list
  where each path reports whether it is flagged external, outermost, or default, plus the
  hatch's fill-style enum and elevation". A boundary path carries its flags and, as
  \<open>flattened\<close>, the vertices that \<^verbatim>\<open>Path.from_hatch_polyline_path\<close> or
  \<^verbatim>\<open>Path.from_hatch_edge_path\<close> followed by \<^verbatim>\<open>flattening(distance)\<close> produce for it.
  The three fill styles are the values 0 (nested), 1 (outermost) and 2 (ignore).
\<close>

record boundary_path =
  PATH_TYPE :: string
  external :: bool
  outermost :: bool
  flattened :: "real \<Rightarrow> vec list"

record hatch =
  elevation :: vec
  hatch_style :: int
  paths :: "boundary_path list"

abbreviation HATCH_STYLE_NESTED :: int where "HATCH_STYLE_NESTED \<equiv> 0"
abbreviation HATCH_STYLE_OUTERMOST :: int where "HATCH_STYLE_OUTERMOST \<equiv> 1"
abbreviation HATCH_STYLE_IGNORE :: int where "HATCH_STYLE_IGNORE \<equiv> 2"

text \<open>
  Modelled from the spec: reading an attribute of the DXF namespace \<^verbatim>\<open>hatch.dxf\<close>. The
  namespace of a hatch has the attributes \<^verbatim>\<open>elevation\<close> and \<^verbatim>\<open>hatch_style\<close> (the name
  \<^verbatim>\<open>to_dxf_entities\<close> writes at line 238); reading any other name raises an attribute
  error.
\<close>

definition dxf_getattr :: "hatch \<Rightarrow> string \<Rightarrow> error + pyval" where
  "dxf_getattr h name =
     (if name = ''elevation'' then Inr (PVec (elevation h))
      else if name = ''hatch_style'' then Inr (PNum (of_int (hatch_style h)))
      else Inl (PyAttributeError name))"

text \<open>
  The local functions of \<^verbatim>\<open>_hatch_as_polygon\<close>. Paths are paired with their position in
  the boundary list, which stands for the object identity that \<^verbatim>\<open>filter_external\<close>
  compares.
\<close>

definition boundary_to_vertices :: "boundary_path \<Rightarrow> real \<Rightarrow> error + vec list" where
  "boundary_to_vertices boundary distance =
     (let vertices = flattened boundary distance in
      case vertices of
        [] \<Rightarrow> Inl PyIndexError
      | v # _ \<Rightarrow>
          if \<not> isclose v (last vertices) then Inr (vertices @ [v]) else Inr vertices)"

definition external_path :: "(nat \<times> boundary_path) list \<Rightarrow> (nat \<times> boundary_path) option" where
  "external_path boundaries = List.find (\<lambda>(i, b). external b) boundaries"

definition outer_most_paths :: "(nat \<times> boundary_path) list \<Rightarrow> (nat \<times> boundary_path) list" where
  "outer_most_paths boundaries = filter (\<lambda>(i, b). outermost b) boundaries"

definition default_paths :: "(nat \<times> boundary_path) list \<Rightarrow> (nat \<times> boundary_path) list" where
  "default_paths boundaries = filter (\<lambda>(i, b). \<not> external b \<and> \<not> outermost b) boundaries"

definition filter_external ::
  "bool \<Rightarrow> nat \<Rightarrow> (nat \<times> boundary_path) list \<Rightarrow> (nat \<times> boundary_path) list" where
  "filter_external has_explicit_external external_id paths0 =
     (if \<not> has_explicit_external then filter (\<lambda>(i, p). i \<noteq> external_id) paths0
      else paths0)"

text \<open>
  \<^verbatim>\<open>_hatch_as_polygon\<close> from line 469 on, for a fill style already read, and the whole
  function, which reads the attribute \<^verbatim>\<open>hath_style\<close> at line 468.
\<close>

definition hatch_boundaries ::
  "(vec list \<Rightarrow> bool) \<Rightarrow> hatch \<Rightarrow> pyval \<Rightarrow> real \<Rightarrow> bool \<Rightarrow> error + pyval" where
  "hatch_boundaries has_clockwise_orientation h hatch_style0 distance force_line_string =
     (let boundaries = zip [0 ..< length (paths h)] (paths h);
          count = length boundaries
      in if count = 0 then Inl HatchWithoutBoundary
         else
           let found = external_path boundaries;
               has_explicit_external = (found \<noteq> None);
               ext = (case found of None \<Rightarrow> hd boundaries | Some b \<Rightarrow> b)
           in if count = 1 \<or> hatch_style0 = PNum (of_int HATCH_STYLE_IGNORE) then
                (case boundary_to_vertices (snd ext) distance of
                   Inl e \<Rightarrow> Inl e
                 | Inr points \<Rightarrow>
                     line_string_or_polygon_mapping has_clockwise_orientation points
                       force_line_string)
              else
                let holes0 = filter_external has_explicit_external (fst ext)
                               (outer_most_paths boundaries);
                    hatch_style1 =
                      (if hatch_style0 = PNum (of_int HATCH_STYLE_OUTERMOST) \<and> length holes0 = 0
                       then PNum (of_int HATCH_STYLE_NESTED) else hatch_style0);
                    holes =
                      (if hatch_style1 = PNum (of_int HATCH_STYLE_NESTED)
                       then holes0 @ filter_external has_explicit_external (fst ext)
                                       (default_paths boundaries)
                       else holes0)
                in if force_line_string then
                     (case boundary_to_vertices (snd ext) distance of
                        Inl e \<Rightarrow> Inl e
                      | Inr points \<Rightarrow>
                          (case line_string_or_polygon_mapping has_clockwise_orientation points
                                  force_line_string of
                             Inl e \<Rightarrow> Inl e
                           | Inr g \<Rightarrow>
                               (case sequence
                                       (map (\<lambda>hole.
                                               case boundary_to_vertices (snd hole) distance of
                                                 Inl e \<Rightarrow> Inl e
                                               | Inr pts \<Rightarrow>
                                                   line_string_or_polygon_mapping
                                                     has_clockwise_orientation pts
                                                     force_line_string)
                                            holes) of
                                  Inl e \<Rightarrow> Inl e
                                | Inr gs \<Rightarrow> join_multi_single_type_mappings (g # gs))))
                   else
                     (case boundary_to_vertices (snd ext) distance of
                        Inl e \<Rightarrow> Inl e
                      | Inr points \<Rightarrow>
                          (case sequence
                                  (map (\<lambda>hole. boundary_to_vertices (snd hole) distance) holes) of
                             Inl e \<Rightarrow> Inl e
                           | Inr hs \<Rightarrow>
                               polygon_mapping has_clockwise_orientation points (Some hs))))"

definition hatch_as_polygon ::
  "(vec list \<Rightarrow> bool) \<Rightarrow> hatch \<Rightarrow> real \<Rightarrow> bool \<Rightarrow> error + pyval" where
  "hatch_as_polygon has_clockwise_orientation h distance force_line_string =
     (case dxf_getattr h ''elevation'' of
        Inl e \<Rightarrow> Inl e
      | Inr elevation0 \<Rightarrow>
          (case dxf_getattr h ''hath_style'' of
             Inl e \<Rightarrow> Inl e
           | Inr hatch_style0 \<Rightarrow>
               hatch_boundaries has_clockwise_orientation h hatch_style0 distance
                 force_line_string))"

subsection \<open>\<^verbatim>\<open>mapping\<close>, \<^verbatim>\<open>collection\<close> and the proxy constructors\<close>

text \<open>
  The entities by their DXF type. An entity carries what \<^verbatim>\<open>mapping\<close> reads of it: the
  location of a POINT, the end points of a LINE, the flags and the flattened path of a
  POLYLINE or LWPOLYLINE, the flattened curve of a CIRCLE, ARC, ELLIPSE or SPLINE (each as
  a function of the flattening distance), the closed face vertices of a SOLID, TRACE or
  3DFACE. Any other DXF type is \<open>DXF_OTHER\<close>.
\<close>

datatype curve_kind = CIRCLE | ARC | ELLIPSE | SPLINE
datatype face_kind = SOLID | TRACE | FACE3D

datatype dxf_entity =
    DXF_POINT vec
  | DXF_LINE vec vec
  | DXF_POLYLINE bool bool "real \<Rightarrow> vec list"
  | DXF_LWPOLYLINE "real \<Rightarrow> vec list"
  | DXF_CURVE curve_kind "real \<Rightarrow> vec list"
  | DXF_FACE face_kind "vec list"
  | DXF_HATCH hatch
  | DXF_OTHER string

fun mapping :: "(vec list \<Rightarrow> bool) \<Rightarrow> dxf_entity \<Rightarrow> real \<Rightarrow> bool \<Rightarrow> error + pyval" where
  "mapping has_clockwise_orientation (DXF_POINT location) distance force_line_string =
     Inr (PDict [(PStr TYPE_KEY, PStr POINT), (PStr COORDINATES, PVec location)])"
| "mapping has_clockwise_orientation (DXF_LINE start end) distance force_line_string =
     Inr (line_string_mapping [start, end])"
| "mapping has_clockwise_orientation (DXF_POLYLINE is_3d_polyline is_2d_polyline path_flattening)
     distance force_line_string =
     (if is_3d_polyline \<or> is_2d_polyline then
        line_string_or_polygon_mapping has_clockwise_orientation (path_flattening distance)
          force_line_string
      else Inl (UnsupportedEntity ''Polymesh and Polyface not supported.''))"
| "mapping has_clockwise_orientation (DXF_LWPOLYLINE path_flattening) distance force_line_string =
     line_string_or_polygon_mapping has_clockwise_orientation (path_flattening distance)
       force_line_string"
| "mapping has_clockwise_orientation (DXF_CURVE kind entity_flattening) distance
     force_line_string =
     line_string_or_polygon_mapping has_clockwise_orientation (entity_flattening distance)
       force_line_string"
| "mapping has_clockwise_orientation (DXF_FACE kind wcs_vertices) distance force_line_string =
     line_string_or_polygon_mapping has_clockwise_orientation wcs_vertices force_line_string"
| "mapping has_clockwise_orientation (DXF_HATCH h) distance force_line_string =
     hatch_as_polygon has_clockwise_orientation h distance force_line_string"
| "mapping has_clockwise_orientation (DXF_OTHER dxftype) distance force_line_string =
     Inl (UnsupportedEntity dxftype)"

definition collection ::
  "(vec list \<Rightarrow> bool) \<Rightarrow> dxf_entity list \<Rightarrow> real \<Rightarrow> bool \<Rightarrow> error + pyval" where
  "collection has_clockwise_orientation entities distance force_line_string =
     (case sequence (map (\<lambda>e. mapping has_clockwise_orientation e distance force_line_string)
                      entities) of
        Inl e \<Rightarrow> Inl e
      | Inr m \<Rightarrow>
          (case sequence (map (\<lambda>g. getitem g TYPE_KEY) m) of
             Inl e \<Rightarrow> Inl e
           | Inr types \<Rightarrow>
               if length (remdups types) > 1 then Inr (geometry_collection_mapping m)
               else join_multi_single_type_mappings m))"

text \<open>
  The first argument of \<^verbatim>\<open>from_dxf_entities\<close> and \<^verbatim>\<open>proxy\<close>: a single entity, or an
  iterable of entities.
\<close>

datatype entity_arg = Single dxf_entity | Many "dxf_entity list"

definition from_dxf_entities ::
  "(vec list \<Rightarrow> bool) \<Rightarrow> entity_arg \<Rightarrow> real \<Rightarrow> bool \<Rightarrow> error + geo_proxy" where
  "from_dxf_entities has_clockwise_orientation entity distance force_line_string =
     (case (case entity of
              Single e \<Rightarrow> mapping has_clockwise_orientation e distance force_line_string
            | Many es \<Rightarrow> collection has_clockwise_orientation es distance False) of
        Inl e \<Rightarrow> Inl e
      | Inr m \<Rightarrow> GeoProxy m)"

definition proxy ::
  "(vec list \<Rightarrow> bool) \<Rightarrow> entity_arg \<Rightarrow> real \<Rightarrow> bool \<Rightarrow> error + geo_proxy" where
  "proxy has_clockwise_orientation entity distance force_line_string =
     from_dxf_entities has_clockwise_orientation entity distance force_line_string"

subsection \<open>Hatch mapping\<close>

text \<open>
  The hatch with one boundary path, flagged external, of the four points of a square, and
  fill style "outermost".
\<close>

definition square_path :: boundary_path where
  "square_path = \<lparr>PATH_TYPE = ''PolylinePath'', external = True, outermost = False,
     flattened = (\<lambda>d. [Vec 0 0 0, Vec 10 0 0, Vec 10 10 0, Vec 0 10 0])\<rparr>"

definition square_hatch :: hatch where
  "square_hatch =
     \<lparr>elevation = Vec 0 0 0, hatch_style = HATCH_STYLE_OUTERMOST, paths = [square_path]\<rparr>"

text \<open>
  Had the fill style been read, the boundary resolution would give the single Polygon
  without holes for this hatch: the closed square, reversed when the orientation test
  calls it clockwise.
\<close>

lemma hatch_boundaries_square:
  "hatch_boundaries has_clockwise_orientation square_hatch
       (PNum (of_int HATCH_STYLE_OUTERMOST)) (1 / 10) False
     = Inr (PDict [(PStr TYPE_KEY, PStr POLYGON),
                   (PStr COORDINATES,
                    PList (map PVec
                      (if has_clockwise_orientation
                            [Vec 0 0 0, Vec 10 0 0, Vec 10 10 0, Vec 0 10 0, Vec 0 0 0]
                       then [Vec 0 0 0, Vec 0 10 0, Vec 10 10 0, Vec 10 0 0, Vec 0 0 0]
                       else [Vec 0 0 0, Vec 10 0 0, Vec 10 10 0, Vec 0 10 0, Vec 0 0 0])))])"
  by (simp add: hatch_boundaries_def square_hatch_def square_path_def external_path_def
      boundary_to_vertices_def line_string_or_polygon_mapping_def is_linear_ring_def
      polygon_mapping_def linear_ring_def isclose_def math_isclose_def Let_def)

text \<open>
  C6. A hatch with one external boundary path of 4 points and fill style "outermost" must
  map to a single Polygon without holes. The code maps no hatch at all: for every hatch,
  also this one, \<^verbatim>\<open>_hatch_as_polygon\<close> raises the attribute error of the misspelled
  attribute \<^verbatim>\<open>hath_style\<close>, before the boundary paths are looked at.
\<close>

theorem hatch_as_polygon_raises_attribute_error:
  "hatch_as_polygon has_clockwise_orientation h distance force_line_string
     = Inl (PyAttributeError ''hath_style'')
   \<and> mapping has_clockwise_orientation (DXF_HATCH square_hatch) (1 / 10) False
     = Inl (PyAttributeError ''hath_style'')"
  by (simp add: hatch_as_polygon_def dxf_getattr_def)

subsection \<open>The flag \<^verbatim>\<open>force_line_string\<close> and collections\<close>

text \<open>The collection mapping itself depends on the flag, for a closed polyline.\<close>

lemma collection_uses_flag:
  "collection has_clockwise_orientation
       [DXF_LWPOLYLINE (\<lambda>d. [Vec 0 0 0, Vec 10 0 0, Vec 10 10 0, Vec 0 0 0])] (1 / 10) True
     \<noteq> collection has_clockwise_orientation
         [DXF_LWPOLYLINE (\<lambda>d. [Vec 0 0 0, Vec 10 0 0, Vec 10 10 0, Vec 0 0 0])] (1 / 10) False"
  by (simp add: collection_def line_string_or_polygon_mapping_def is_linear_ring_def
      polygon_mapping_def linear_ring_def isclose_def math_isclose_def line_string_mapping_def
      join_multi_single_type_mappings_def Let_def)

text \<open>
  C10. For an iterable of entities the flag \<^verbatim>\<open>force_line_string\<close> of
  \<^verbatim>\<open>from_dxf_entities\<close> and of \<^verbatim>\<open>proxy\<close> has no effect: the proxy is built from the
  collection mapping with the flag left at its default \<^verbatim>\<open>False\<close>, so the results for
  \<^verbatim>\<open>True\<close> and \<^verbatim>\<open>False\<close> are equal.
\<close>

theorem from_dxf_entities_ignores_force_line_string:
  "from_dxf_entities has_clockwise_orientation (Many es) distance force_line_string
     = (case collection has_clockwise_orientation es distance False of
          Inl e \<Rightarrow> Inl e
        | Inr m \<Rightarrow> GeoProxy m)
   \<and> from_dxf_entities has_clockwise_orientation (Many es) distance True
     = from_dxf_entities has_clockwise_orientation (Many es) distance False
   \<and> proxy has_clockwise_orientation (Many es) distance True
     = proxy has_clockwise_orientation (Many es) distance False"
  by (simp add: from_dxf_entities_def proxy_def)

section \<open>Cubic B\'ezier curves\<close>

text \<open>
  \<^verbatim>\<open>ezdxf/math/_bezier4p.py\<close> computes in Python floats, on vectors of the classes
  \<^verbatim>\<open>Vec2\<close> and \<^verbatim>\<open>Vec3\<close>, which are not in the sources at hand. The arithmetic is a
  parameter of the model: a record of the float constants and operations that the code
  uses (\<^verbatim>\<open>0.0\<close>, \<^verbatim>\<open>1.0\<close>, \<^verbatim>\<open>3.0\<close>, \<^verbatim>\<open>0.5\<close>, \<^verbatim>\<open>+\<close>, \<^verbatim>\<open>-\<close>, \<^verbatim>\<open>*\<close>, \<^verbatim>\<open>/\<close>, \<^verbatim>\<open><\<close>,
  \<^verbatim>\<open><=\<close>, the conversion of an integer, which fails with \<^verbatim>\<open>OverflowError\<close> for an
  integer beyond the floats, \<^verbatim>\<open>math.isclose\<close>) and of the vector operations
  (sum, product with a number, \<^verbatim>\<open>lerp\<close> with its default factor, \<^verbatim>\<open>distance\<close>).
  What is proved for every such record holds for the floating-point arithmetic of the
  program in particular; exact real arithmetic is the instance \<open>real_ops\<close> below.
\<close>

record ('a, 'v) float_ops =
  f_zero :: 'a
  f_one :: 'a
  f_three :: 'a
  f_half :: 'a
  f_add :: "'a \<Rightarrow> 'a \<Rightarrow> 'a"
  f_sub :: "'a \<Rightarrow> 'a \<Rightarrow> 'a"
  f_mul :: "'a \<Rightarrow> 'a \<Rightarrow> 'a"
  f_div :: "'a \<Rightarrow> 'a \<Rightarrow> 'a"
  f_less :: "'a \<Rightarrow> 'a \<Rightarrow> bool"
  f_le :: "'a \<Rightarrow> 'a \<Rightarrow> bool"
  f_of_int :: "int \<Rightarrow> 'a option"
  f_isclose :: "'a \<Rightarrow> 'a \<Rightarrow> bool"
  v_add :: "'v \<Rightarrow> 'v \<Rightarrow> 'v"
  v_mul :: "'v \<Rightarrow> 'a \<Rightarrow> 'v"
  v_lerp :: "'v \<Rightarrow> 'v \<Rightarrow> 'v"
  v_distance :: "'v \<Rightarrow> 'v \<Rightarrow> 'a"

text \<open>
  The curve object holds its four control points. The constructor converts the given
  points to \<^verbatim>\<open>Vec2\<close> or \<^verbatim>\<open>Vec3\<close> objects (that conversion belongs to the vector classes;
  the model takes the points as vectors) and fails unless there are exactly four.
\<close>

record 'v bezier4p =
  control_points :: "'v \<times> 'v \<times> 'v \<times> 'v"

definition Bezier4P :: "'v list \<Rightarrow> error + 'v bezier4p" where
  "Bezier4P defpoints =
     (if length defpoints = 4 then
        Inr \<lparr>control_points = (defpoints ! 0, defpoints ! 1, defpoints ! 2, defpoints ! 3)\<rparr>
      else Inl InvalidArity)"

text \<open>\<^verbatim>\<open>check_if_in_valid_range\<close>, \<^verbatim>\<open>bernstein3\<close>, \<^verbatim>\<open>_get_curve_point\<close> and \<^verbatim>\<open>point\<close>.\<close>

definition check_if_in_valid_range :: "('a, 'v) float_ops \<Rightarrow> 'a \<Rightarrow> error + unit" where
  "check_if_in_valid_range A t =
     (if \<not> (f_le A (f_zero A) t \<and> f_le A t (f_one A)) then Inl OutOfRange else Inr ())"

definition bernstein3 :: "('a, 'v) float_ops \<Rightarrow> 'a \<Rightarrow> 'a \<times> 'a \<times> 'a \<times> 'a" where
  "bernstein3 A t =
     (let t2 = f_mul A t t;
          one_minus_t = f_sub A (f_one A) t;
          one_minus_t_square = f_mul A one_minus_t one_minus_t;
          a = f_mul A one_minus_t_square one_minus_t;
          b = f_mul A (f_mul A (f_three A) one_minus_t_square) t;
          c = f_mul A (f_mul A (f_three A) one_minus_t) t2;
          d = f_mul A t2 t
      in (a, b, c, d))"

definition get_curve_point :: "('a, 'v) float_ops \<Rightarrow> 'v bezier4p \<Rightarrow> 'a \<Rightarrow> 'v" where
  "get_curve_point A curve t =
     (case control_points curve of
        (b1, b2, b3, b4) \<Rightarrow>
          (case bernstein3 A t of
             (a, b, c, d) \<Rightarrow>
               v_add A (v_add A (v_add A (v_mul A b1 a) (v_mul A b2 b)) (v_mul A b3 c))
                 (v_mul A b4 d)))"

definition point :: "('a, 'v) float_ops \<Rightarrow> 'v bezier4p \<Rightarrow> 'a \<Rightarrow> error + 'v" where
  "point A curve t =
     (case check_if_in_valid_range A t of
        Inl e \<Rightarrow> Inl e
      | Inr u \<Rightarrow> Inr (get_curve_point A curve t))"

subsection \<open>Flattening\<close>

text \<open>
  \<^verbatim>\<open>flattening\<close> is a generator. A run of it is given two budgets: the recursion depth
  available to the nested generator \<^verbatim>\<open>subdiv\<close> (Python raises \<^verbatim>\<open>RecursionError\<close> when
  the interpreter's recursion limit is reached) and the number of passes through the
  \<^verbatim>\<open>while\<close> loop that are looked at. The result of a run is the list of the vertices
  produced so far together with a status: the generator is exhausted, an exception was
  raised, or the loop is still running when the passes are used up.
\<close>

datatype status = Exhausted | Running | Raised error

fun subdiv ::
  "nat \<Rightarrow> ('a, 'v) float_ops \<Rightarrow> 'v bezier4p \<Rightarrow> 'a \<Rightarrow> 'v \<Rightarrow> 'v \<Rightarrow> 'a \<Rightarrow> 'a \<Rightarrow> 'v list \<times> status"
  where
  "subdiv 0 A curve distance start_point end_point start_t end_t = ([], Raised PyRecursionError)"
| "subdiv (Suc depth) A curve distance start_point end_point start_t end_t =
     (let mid_t = f_mul A (f_add A start_t end_t) (f_half A);
          mid_point = get_curve_point A curve mid_t;
          chk_point = v_lerp A start_point end_point
      in if f_less A (v_distance A chk_point mid_point) distance then ([end_point], Exhausted)
         else (case subdiv depth A curve distance start_point mid_point start_t mid_t of
                 (first_half, Exhausted) \<Rightarrow>
                   (case subdiv depth A curve distance mid_point end_point mid_t end_t of
                      (second_half, st) \<Rightarrow> (first_half @ second_half, st))
               | (first_half, st) \<Rightarrow> (first_half, st)))"

fun flattening_loop ::
  "nat \<Rightarrow> nat \<Rightarrow> ('a, 'v) float_ops \<Rightarrow> 'v bezier4p \<Rightarrow> 'a \<Rightarrow> 'a \<Rightarrow> 'a \<Rightarrow> 'v \<Rightarrow> 'v list \<times> status"
  where
  "flattening_loop 0 depth A curve distance dt t0 start_point =
     (if f_less A t0 (f_one A) then ([], Running) else ([], Exhausted))"
| "flattening_loop (Suc iterations) depth A curve distance dt t0 start_point =
     (if f_less A t0 (f_one A) then
        (let t1 = f_add A t0 dt;
             close = f_isclose A t1 (f_one A);
             end_point = (if close then snd (snd (snd (control_points curve)))
                          else get_curve_point A curve t1);
             t1 = (if close then f_one A else t1)
         in case subdiv depth A curve distance start_point end_point t0 t1 of
              (vertices, Exhausted) \<Rightarrow>
                (case flattening_loop iterations depth A curve distance dt t1 end_point of
                   (rest, st) \<Rightarrow> (vertices @ rest, st))
            | (vertices, st) \<Rightarrow> (vertices, st))
      else ([], Exhausted))"

definition flattening ::
  "nat \<Rightarrow> nat \<Rightarrow> ('a, 'v) float_ops \<Rightarrow> 'v bezier4p \<Rightarrow> 'a \<Rightarrow> int \<Rightarrow> error + ('v list \<times> status)"
  where
  "flattening iterations depth A curve distance segments =
     (case f_of_int A segments of
        None \<Rightarrow> Inl PyOverflowError
      | Some s \<Rightarrow>
          if segments = 0 then Inl PyZeroDivisionError
          else
            let dt = f_div A (f_one A) s;
                t0 = f_zero A;
                start_point = fst (control_points curve)
            in case flattening_loop iterations depth A curve distance dt t0 start_point of
                 (vertices, st) \<Rightarrow> Inr (start_point # vertices, st))"

subsection \<open>Exact real arithmetic\<close>

text \<open>
  Modelled from the spec: a point is an ordered real-valued coordinate with value-based
  arithmetic (add, scale, distance, linear interpolation).
\<close>

definition vadd :: "vec \<Rightarrow> vec \<Rightarrow> vec" where
  "vadd p q = Vec (vx p + vx q) (vy p + vy q) (vz p + vz q)"

definition vsub :: "vec \<Rightarrow> vec \<Rightarrow> vec" where
  "vsub p q = Vec (vx p - vx q) (vy p - vy q) (vz p - vz q)"

definition vscale :: "vec \<Rightarrow> real \<Rightarrow> vec" where
  "vscale p k = Vec (vx p * k) (vy p * k) (vz p * k)"

definition vlerp :: "vec \<Rightarrow> vec \<Rightarrow> vec" where
  "vlerp p q = vadd p (vscale (vsub q p) (1 / 2))"

definition vdistance :: "vec \<Rightarrow> vec \<Rightarrow> real" where
  "vdistance p q = sqrt ((vx p - vx q)\<^sup>2 + (vy p - vy q)\<^sup>2 + (vz p - vz q)\<^sup>2)"

definition real_ops :: "(real, vec) float_ops" where
  "real_ops =
     \<lparr>f_zero = 0, f_one = 1, f_three = 3, f_half = 1 / 2,
      f_add = (+), f_sub = (-), f_mul = (*), f_div = (/),
      f_less = (<), f_le = (\<le>), f_of_int = (\<lambda>i. Some (of_int i)),
      f_isclose = (\<lambda>a b. math_isclose a b (1 / 10 ^ 9) 0),
      v_add = vadd, v_mul = vscale, v_lerp = vlerp, v_distance = vdistance\<rparr>"

subsection \<open>End points\<close>

text \<open>
  The arithmetic facts used at the parameters 0 and 1: the comparisons of the range check,
  the differences and products of 0, 1 and 3 that \<^verbatim>\<open>bernstein3\<close> forms there, and, for
  the control points of the curve, that the product with 1 is the point itself and that
  the products with 0 are one vector that changes nothing when added. They hold in exact
  arithmetic for every curve, and in floating-point arithmetic for control points with
  finite coordinates (a zero is equal to a zero of the other sign there).
\<close>

definition exact_at_ends :: "('a, 'v) float_ops \<Rightarrow> 'v bezier4p \<Rightarrow> bool" where
  "exact_at_ends A curve \<longleftrightarrow>
     f_le A (f_zero A) (f_zero A) \<and> f_le A (f_zero A) (f_one A) \<and> f_le A (f_one A) (f_one A)
     \<and> f_sub A (f_one A) (f_zero A) = f_one A \<and> f_sub A (f_one A) (f_one A) = f_zero A
     \<and> f_mul A (f_zero A) (f_zero A) = f_zero A \<and> f_mul A (f_one A) (f_one A) = f_one A
     \<and> f_mul A (f_zero A) (f_one A) = f_zero A
     \<and> f_mul A (f_three A) (f_one A) = f_three A \<and> f_mul A (f_three A) (f_zero A) = f_zero A
     \<and> (case control_points curve of
          (b1, b2, b3, b4) \<Rightarrow>
            (\<exists>z. v_mul A b1 (f_zero A) = z \<and> v_mul A b2 (f_zero A) = z
                 \<and> v_mul A b3 (f_zero A) = z \<and> v_mul A b4 (f_zero A) = z
                 \<and> v_add A z z = z \<and> v_add A b1 z = b1 \<and> v_add A z b4 = b4)
            \<and> v_mul A b1 (f_one A) = b1 \<and> v_mul A b4 (f_one A) = b4)"

lemma get_curve_point_at_ends:
  assumes "exact_at_ends A curve"
  shows "get_curve_point A curve (f_zero A) = fst (control_points curve)"
    and "get_curve_point A curve (f_one A) = snd (snd (snd (control_points curve)))"
proof -
  obtain b1 b2 b3 b4 where cp: "control_points curve = (b1, b2, b3, b4)"
    by (cases "control_points curve") auto
  from assms cp obtain z where
    z: "v_mul A b1 (f_zero A) = z" "v_mul A b2 (f_zero A) = z" "v_mul A b3 (f_zero A) = z"
       "v_mul A b4 (f_zero A) = z" "v_add A z z = z" "v_add A b1 z = b1" "v_add A z b4 = b4"
    and one: "v_mul A b1 (f_one A) = b1" "v_mul A b4 (f_one A) = b4"
    by (auto simp: exact_at_ends_def)
  from assms have b0: "bernstein3 A (f_zero A) = (f_one A, f_zero A, f_zero A, f_zero A)"
    by (simp add: exact_at_ends_def bernstein3_def Let_def)
  from assms have b1': "bernstein3 A (f_one A) = (f_zero A, f_zero A, f_zero A, f_one A)"
    by (simp add: exact_at_ends_def bernstein3_def Let_def)
  show "get_curve_point A curve (f_zero A) = fst (control_points curve)"
    by (simp add: get_curve_point_def cp b0 z one)
  show "get_curve_point A curve (f_one A) = snd (snd (snd (control_points curve)))"
    by (simp add: get_curve_point_def cp b1' z one)
qed

lemma check_if_in_valid_range_at_ends:
  assumes "exact_at_ends A curve"
  shows "check_if_in_valid_range A (f_zero A) = Inr ()"
    and "check_if_in_valid_range A (f_one A) = Inr ()"
  using assms by (simp_all add: exact_at_ends_def check_if_in_valid_range_def)

text \<open>
  C8. For a curve of four control points, \<^verbatim>\<open>point(0)\<close> is control point 0 and
  \<^verbatim>\<open>point(1)\<close> is control point 3, exactly: the Bernstein weights at 0 are 1, 0, 0, 0 and
  at 1 they are 0, 0, 0, 1.
\<close>

theorem point_at_ends:
  assumes "exact_at_ends A curve"
  shows "point A curve (f_zero A) = Inr (fst (control_points curve))
         \<and> point A curve (f_one A) = Inr (snd (snd (snd (control_points curve))))"
  by (simp add: point_def check_if_in_valid_range_at_ends [OF assms]
      get_curve_point_at_ends [OF assms])

text \<open>In exact real arithmetic the facts hold for every curve.\<close>

lemma exact_at_ends_real_ops: "exact_at_ends real_ops curve"
  by (cases "control_points curve")
     (auto simp: exact_at_ends_def real_ops_def vscale_def vadd_def)

definition arc_curve :: "vec bezier4p" where
  "arc_curve = \<lparr>control_points = (Vec 0 0 0, Vec 1 2 0, Vec 3 2 0, Vec 4 0 0)\<rparr>"

theorem point_at_ends_witness:
  "point real_ops arc_curve 0 = Inr (Vec 0 0 0) \<and> point real_ops arc_curve 1 = Inr (Vec 4 0 0)"
  using point_at_ends [OF exact_at_ends_real_ops, of arc_curve]
  by (simp add: real_ops_def arc_curve_def)

subsection \<open>Chords of the flattening\<close>

text \<open>
  A produced vertex is taken with the curve parameter at which it was produced. A chord
  between two consecutive vertices passes when the distance between its midpoint
  (\<^verbatim>\<open>lerp\<close>) and the curve point at the midpoint parameter is less than the maximum
  distance, all computed by the operations of the program. A vertex is at its parameter
  when it is the evaluated curve point there, or the first control point at 0, or the
  last control point at 1.
\<close>

definition chord_ok ::
  "('a, 'v) float_ops \<Rightarrow> 'v bezier4p \<Rightarrow> 'a \<Rightarrow> 'a \<times> 'v \<Rightarrow> 'a \<times> 'v \<Rightarrow> bool" where
  "chord_ok A curve distance a b \<longleftrightarrow>
     f_less A
       (v_distance A (v_lerp A (snd a) (snd b))
          (get_curve_point A curve (f_mul A (f_add A (fst a) (fst b)) (f_half A))))
       distance"

definition vertex_at :: "('a, 'v) float_ops \<Rightarrow> 'v bezier4p \<Rightarrow> 'a \<Rightarrow> 'v \<Rightarrow> bool" where
  "vertex_at A curve t p \<longleftrightarrow>
     p = get_curve_point A curve t
     \<or> (t = f_zero A \<and> p = fst (control_points curve))
     \<or> (t = f_one A \<and> p = snd (snd (snd (control_points curve))))"

lemma subdiv_trace:
  assumes "subdiv depth A curve d sp ep st et = (vs, s)" and "vertex_at A curve et ep"
  shows "\<exists>ps. map snd ps = vs
           \<and> successively (chord_ok A curve d) ((st, sp) # ps)
           \<and> (\<forall>q \<in> set ps. vertex_at A curve (fst q) (snd q))
           \<and> (s = Exhausted \<longrightarrow> ps \<noteq> [] \<and> last ps = (et, ep))"
  using assms
proof (induction depth arbitrary: sp ep st et vs s)
  case 0
  then have "vs = []" and "s \<noteq> Exhausted" by auto
  then show ?case by (intro exI [of _ "[]"]) simp
next
  case (Suc depth)
  let ?mid_t = "f_mul A (f_add A st et) (f_half A)"
  let ?mid = "get_curve_point A curve ?mid_t"
  show ?case
  proof (cases "f_less A (v_distance A (v_lerp A sp ep) ?mid) d")
    case True
    with Suc.prems(1) have "vs = [ep]" and "s = Exhausted" by (simp_all add: Let_def)
    moreover have "chord_ok A curve d (st, sp) (et, ep)"
      using True by (simp add: chord_ok_def)
    ultimately show ?thesis
      using Suc.prems(2) by (intro exI [of _ "[(et, ep)]"]) simp
  next
    case False
    obtain xs s1 where first: "subdiv depth A curve d sp ?mid st ?mid_t = (xs, s1)"
      by (cases "subdiv depth A curve d sp ?mid st ?mid_t") auto
    have mid_at: "vertex_at A curve ?mid_t ?mid" by (simp add: vertex_at_def)
    from Suc.IH [OF first mid_at] obtain ps1 where
      m1: "map snd ps1 = xs" and c1: "successively (chord_ok A curve d) ((st, sp) # ps1)"
      and a1: "\<forall>q \<in> set ps1. vertex_at A curve (fst q) (snd q)"
      and l1: "s1 = Exhausted \<longrightarrow> ps1 \<noteq> [] \<and> last ps1 = (?mid_t, ?mid)"
      by blast
    show ?thesis
    proof (cases "s1 = Exhausted")
      case stopped: False
      with Suc.prems(1) False first have "vs = xs" and "s = s1"
        by (simp_all add: Let_def split: status.splits)
      with stopped m1 c1 a1 show ?thesis by (intro exI [of _ ps1]) simp
    next
      case True
      obtain ys s2 where second: "subdiv depth A curve d ?mid ep ?mid_t et = (ys, s2)"
        by (cases "subdiv depth A curve d ?mid ep ?mid_t et") auto
      from Suc.IH [OF second Suc.prems(2)] obtain ps2 where
        m2: "map snd ps2 = ys" and c2: "successively (chord_ok A curve d) ((?mid_t, ?mid) # ps2)"
        and a2: "\<forall>q \<in> set ps2. vertex_at A curve (fst q) (snd q)"
        and l2: "s2 = Exhausted \<longrightarrow> ps2 \<noteq> [] \<and> last ps2 = (et, ep)"
        by blast
      from Suc.prems(1) False first second True have vs: "vs = xs @ ys" and s: "s = s2"
        by (simp_all add: Let_def)
      from True l1 have n1: "ps1 \<noteq> []" and last1: "last ps1 = (?mid_t, ?mid)" by simp_all
      have "successively (chord_ok A curve d) (((st, sp) # ps1) @ ps2)"
        unfolding successively_append_iff
        using c1 c2 n1 last1 by (cases ps2) (auto simp: successively_Cons)
      then have "successively (chord_ok A curve d) ((st, sp) # ps1 @ ps2)" by simp
      moreover have "map snd (ps1 @ ps2) = vs" using m1 m2 vs by simp
      moreover have "\<forall>q \<in> set (ps1 @ ps2). vertex_at A curve (fst q) (snd q)"
        using a1 a2 by auto
      moreover have "s = Exhausted \<longrightarrow> ps1 @ ps2 \<noteq> [] \<and> last (ps1 @ ps2) = (et, ep)"
        using l2 s by simp
      ultimately show ?thesis by blast
    qed
  qed
qed

lemma flattening_loop_trace:
  assumes "flattening_loop iterations depth A curve d dt t0 sp = (vs, s)"
  shows "\<exists>ps. map snd ps = vs
           \<and> successively (chord_ok A curve d) ((t0, sp) # ps)
           \<and> (\<forall>q \<in> set ps. vertex_at A curve (fst q) (snd q))
           \<and> (s = Exhausted \<longrightarrow> \<not> f_less A (fst (last ((t0, sp) # ps))) (f_one A))"
  using assms
proof (induction iterations arbitrary: t0 sp vs s)
  case 0
  then have "vs = []" and "s = Exhausted \<longrightarrow> \<not> f_less A t0 (f_one A)"
    by (simp_all split: if_splits)
  then show ?case by (intro exI [of _ "[]"]) simp
next
  case (Suc iterations)
  show ?case
  proof (cases "f_less A t0 (f_one A)")
    case False
    with Suc.prems have "vs = []" by simp
    with False show ?thesis by (intro exI [of _ "[]"]) simp
  next
    case True
    define close where "close = f_isclose A (f_add A t0 dt) (f_one A)"
    define ep where "ep = (if close then snd (snd (snd (control_points curve)))
                           else get_curve_point A curve (f_add A t0 dt))"
    define t1 where "t1 = (if close then f_one A else f_add A t0 dt)"
    have ep_at: "vertex_at A curve t1 ep"
      by (simp add: vertex_at_def ep_def t1_def)
    obtain xs s1 where sub: "subdiv depth A curve d sp ep t0 t1 = (xs, s1)"
      by (cases "subdiv depth A curve d sp ep t0 t1") auto
    from subdiv_trace [OF sub ep_at] obtain ps1 where
      m1: "map snd ps1 = xs" and c1: "successively (chord_ok A curve d) ((t0, sp) # ps1)"
      and a1: "\<forall>q \<in> set ps1. vertex_at A curve (fst q) (snd q)"
      and l1: "s1 = Exhausted \<longrightarrow> ps1 \<noteq> [] \<and> last ps1 = (t1, ep)"
      by blast
    show ?thesis
    proof (cases "s1 = Exhausted")
      case stopped: False
      with Suc.prems True sub have "vs = xs" and "s = s1"
        by (simp_all add: Let_def close_def ep_def t1_def split: status.splits)
      with stopped m1 c1 a1 show ?thesis by (intro exI [of _ ps1]) simp
    next
      case fin: True
      obtain ys s2 where rest: "flattening_loop iterations depth A curve d dt t1 ep = (ys, s2)"
        by (cases "flattening_loop iterations depth A curve d dt t1 ep") auto
      from Suc.IH [OF rest] obtain ps2 where
        m2: "map snd ps2 = ys" and c2: "successively (chord_ok A curve d) ((t1, ep) # ps2)"
        and a2: "\<forall>q \<in> set ps2. vertex_at A curve (fst q) (snd q)"
        and l2: "s2 = Exhausted \<longrightarrow> \<not> f_less A (fst (last ((t1, ep) # ps2))) (f_one A)"
        by blast
      from Suc.prems True sub rest fin have vs: "vs = xs @ ys" and s: "s = s2"
        by (simp_all add: Let_def close_def ep_def t1_def)
      from fin l1 have n1: "ps1 \<noteq> []" and last1: "last ps1 = (t1, ep)" by simp_all
      have "successively (chord_ok A curve d) (((t0, sp) # ps1) @ ps2)"
        unfolding successively_append_iff
        using c1 c2 n1 last1 by (cases ps2) (auto simp: successively_Cons)
      then have "successively (chord_ok A curve d) ((t0, sp) # ps1 @ ps2)" by simp
      moreover have "map snd (ps1 @ ps2) = vs" using m1 m2 vs by simp
      moreover have "\<forall>q \<in> set (ps1 @ ps2). vertex_at A curve (fst q) (snd q)"
        using a1 a2 by auto
      moreover have "s = Exhausted \<longrightarrow>
          \<not> f_less A (fst (last ((t0, sp) # ps1 @ ps2))) (f_one A)"
        using l2 s n1 last1 by (cases ps2) auto
      ultimately show ?thesis by blast
    qed
  qed
qed

text \<open>
  C4. In every run of \<^verbatim>\<open>flattening\<close>, whatever the arithmetic, the maximum distance, the
  segment count and the budgets, and whether or not the run is exhausted: the produced
  vertex sequence starts with the first control point, and there are curve parameters for
  the vertices, starting at 0, such that every vertex is at its parameter and every chord
  between two consecutive vertices passes: its midpoint is closer than the maximum
  distance to the curve point at the chord's midpoint parameter. When the run is
  exhausted, the last parameter is not below 1.
\<close>

theorem flattening_chords:
  assumes "flattening iterations depth A curve distance segments = Inr (vertices, st)"
  shows "vertices \<noteq> [] \<and> hd vertices = fst (control_points curve)
         \<and> (\<exists>ts. length ts = length vertices \<and> hd ts = f_zero A
               \<and> successively (chord_ok A curve distance) (zip ts vertices)
               \<and> list_all2 (vertex_at A curve) ts vertices
               \<and> (st = Exhausted \<longrightarrow> \<not> f_less A (last ts) (f_one A)))"
proof -
  let ?cp0 = "fst (control_points curve)"
  from assms obtain vs dt where
    loop: "flattening_loop iterations depth A curve distance dt (f_zero A) ?cp0 = (vs, st)"
    and vertices: "vertices = ?cp0 # vs"
    by (auto simp: flattening_def Let_def split: if_splits prod.splits option.splits)
  from flattening_loop_trace [OF loop] obtain ps where
    m: "map snd ps = vs"
    and c: "successively (chord_ok A curve distance) ((f_zero A, ?cp0) # ps)"
    and a: "\<forall>q \<in> set ps. vertex_at A curve (fst q) (snd q)"
    and l: "st = Exhausted \<longrightarrow> \<not> f_less A (fst (last ((f_zero A, ?cp0) # ps))) (f_one A)"
    by blast
  let ?ts = "f_zero A # map fst ps"
  have z: "zip ?ts vertices = (f_zero A, ?cp0) # ps"
    unfolding vertices m [symmetric] by (simp add: zip_map_fst_snd)
  have "length ?ts = length vertices" using vertices m by auto
  moreover have "hd ?ts = f_zero A" by simp
  moreover have "successively (chord_ok A curve distance) (zip ?ts vertices)"
    using c z by simp
  moreover have "list_all2 (vertex_at A curve) ?ts vertices"
  proof -
    have "list_all2 (vertex_at A curve) (map fst ps) (map snd ps)"
      using a by (induction ps) auto
    moreover have "vertex_at A curve (f_zero A) ?cp0" by (simp add: vertex_at_def)
    ultimately show ?thesis using vertices m by simp
  qed
  moreover have "st = Exhausted \<longrightarrow> \<not> f_less A (last ?ts) (f_one A)"
  proof -
    have "fst (last ((f_zero A, ?cp0) # ps)) = last ?ts"
      by (cases ps rule: rev_cases) auto
    with l show ?thesis by simp
  qed
  ultimately have "\<exists>ts. length ts = length vertices \<and> hd ts = f_zero A
               \<and> successively (chord_ok A curve distance) (zip ts vertices)
               \<and> list_all2 (vertex_at A curve) ts vertices
               \<and> (st = Exhausted \<longrightarrow> \<not> f_less A (last ts) (f_one A))"
    by (intro exI [of _ ?ts] conjI)
  then show ?thesis using vertices by simp
qed

text \<open>A run on a straight curve, in exact arithmetic.\<close>

definition line_curve :: "vec bezier4p" where
  "line_curve = \<lparr>control_points = (Vec 0 0 0, Vec 1 0 0, Vec 2 0 0, Vec 3 0 0)\<rparr>"

lemma line_flat:
  "flattening 2 1 real_ops line_curve (1 / 10) 2
     = Inr ([Vec 0 0 0, Vec (3 / 2) 0 0, Vec 3 0 0], Exhausted)"
  by (simp add: flattening_def real_ops_def line_curve_def Let_def numeral_2_eq_2
      math_isclose_def get_curve_point_def bernstein3_def vadd_def vscale_def vsub_def vlerp_def
      vdistance_def)

theorem flattening_chords_witness:
  "flattening 2 1 real_ops line_curve (1 / 10) 2
     = Inr ([Vec 0 0 0, Vec (3 / 2) 0 0, Vec 3 0 0], Exhausted)
   \<and> (\<exists>ts. length ts = 3 \<and> hd ts = 0
         \<and> successively (chord_ok real_ops line_curve (1 / 10))
             (zip ts [Vec 0 0 0, Vec (3 / 2) 0 0, Vec 3 0 0])
         \<and> list_all2 (vertex_at real_ops line_curve) ts [Vec 0 0 0, Vec (3 / 2) 0 0, Vec 3 0 0]
         \<and> \<not> last ts < 1)"
proof -
  from flattening_chords [OF line_flat] obtain ts where
    "length ts = length [Vec 0 0 0, Vec (3 / 2) 0 0, Vec 3 0 0]"
    "hd ts = f_zero real_ops"
    "successively (chord_ok real_ops line_curve (1 / 10))
       (zip ts [Vec 0 0 0, Vec (3 / 2) 0 0, Vec 3 0 0])"
    "list_all2 (vertex_at real_ops line_curve) ts [Vec 0 0 0, Vec (3 / 2) 0 0, Vec 3 0 0]"
    "\<not> f_less real_ops (last ts) (f_one real_ops)"
    by blast
  then have "length ts = 3 \<and> hd ts = 0
         \<and> successively (chord_ok real_ops line_curve (1 / 10))
             (zip ts [Vec 0 0 0, Vec (3 / 2) 0 0, Vec 3 0 0])
         \<and> list_all2 (vertex_at real_ops line_curve) ts [Vec 0 0 0, Vec (3 / 2) 0 0, Vec 3 0 0]
         \<and> \<not> last ts < 1"
    by (simp add: real_ops_def)
  then show ?thesis using line_flat by blast
qed

subsection \<open>Exhaustion in exact real arithmetic\<close>

text \<open>
  In exact real arithmetic the midpoint of a chord over the parameter interval from \<open>s\<close>
  to \<open>e\<close> within \<open>[0, 1]\<close> deviates from the curve by at most \<open>((e - s) / 2)\<^sup>2\<close> times a
  bound that depends on the control points only, so every bisection ends and the
  generator is exhausted within finite budgets, for every positive distance and every
  segment count from 1. This rests on the laws of exact arithmetic; it says nothing
  about a run in floating-point arithmetic, where the midpoint parameter of two adjacent
  numbers is one of them.
\<close>

declare subdiv.simps [simp del]
declare flattening_loop.simps [simp del]

definition bez :: "real \<Rightarrow> real \<Rightarrow> real \<Rightarrow> real \<Rightarrow> real \<Rightarrow> real" where
  "bez b1 b2 b3 b4 t =
     b1 * ((1 - t) * (1 - t) * (1 - t)) + b2 * (3 * ((1 - t) * (1 - t)) * t)
       + b3 * (3 * (1 - t) * (t * t)) + b4 * (t * t * t)"

definition comp_bound :: "real \<Rightarrow> real \<Rightarrow> real \<Rightarrow> real \<Rightarrow> real" where
  "comp_bound b1 b2 b3 b4 = 3 * \<bar>b1 - 2 * b2 + b3\<bar> + 3 * \<bar>b4 - 3 * b3 + 3 * b2 - b1\<bar>"

definition curve_bound :: "vec bezier4p \<Rightarrow> real" where
  "curve_bound curve =
     (case control_points curve of
        (b1, b2, b3, b4) \<Rightarrow>
          comp_bound (vx b1) (vx b2) (vx b3) (vx b4)
          + comp_bound (vy b1) (vy b2) (vy b3) (vy b4)
          + comp_bound (vz b1) (vz b2) (vz b3) (vz b4))"

lemma get_curve_point_components:
  assumes "control_points curve = (b1, b2, b3, b4)"
  shows "vx (get_curve_point real_ops curve t) = bez (vx b1) (vx b2) (vx b3) (vx b4) t"
    and "vy (get_curve_point real_ops curve t) = bez (vy b1) (vy b2) (vy b3) (vy b4) t"
    and "vz (get_curve_point real_ops curve t) = bez (vz b1) (vz b2) (vz b3) (vz b4) t"
  using assms
  by (simp_all add: get_curve_point_def bernstein3_def Let_def real_ops_def vadd_def vscale_def
      bez_def)

lemma bez_deviation:
  "(bez b1 b2 b3 b4 s + (bez b1 b2 b3 b4 e - bez b1 b2 b3 b4 s) * (1 / 2))
     - bez b1 b2 b3 b4 ((s + e) * (1 / 2))
   = ((e - s) / 2)\<^sup>2 * (3 * (b1 - 2 * b2 + b3) + 3 * ((s + e) / 2) * (b4 - 3 * b3 + 3 * b2 - b1))"
  unfolding bez_def by (simp add: power2_eq_square field_simps)

lemma bez_deviation_bound:
  assumes "0 \<le> s" "s \<le> e" "e \<le> 1"
  shows "\<bar>(bez b1 b2 b3 b4 s + (bez b1 b2 b3 b4 e - bez b1 b2 b3 b4 s) * (1 / 2))
            - bez b1 b2 b3 b4 ((s + e) * (1 / 2))\<bar>
         \<le> ((e - s) / 2)\<^sup>2 * comp_bound b1 b2 b3 b4"
proof -
  let ?m = "(s + e) / 2"
  let ?A = "b1 - 2 * b2 + b3" and ?B = "b4 - 3 * b3 + 3 * b2 - b1"
  have m: "0 \<le> ?m" "?m \<le> 1" using assms by simp_all
  have "\<bar>3 * ?A + 3 * ?m * ?B\<bar> \<le> \<bar>3 * ?A\<bar> + \<bar>3 * ?m * ?B\<bar>" by (rule abs_triangle_ineq)
  also have "\<bar>3 * ?A\<bar> = 3 * \<bar>?A\<bar>" by (subst abs_mult) simp
  also have "\<bar>3 * ?m * ?B\<bar> = 3 * ?m * \<bar>?B\<bar>" using m by (simp add: abs_mult)
  also have "3 * ?m * \<bar>?B\<bar> \<le> 3 * 1 * \<bar>?B\<bar>"
    using m by (intro mult_right_mono mult_left_mono) simp_all
  finally have inner: "\<bar>3 * ?A + 3 * ?m * ?B\<bar> \<le> comp_bound b1 b2 b3 b4"
    by (simp add: comp_bound_def)
  have "\<bar>((e - s) / 2)\<^sup>2 * (3 * ?A + 3 * ?m * ?B)\<bar>
          = ((e - s) / 2)\<^sup>2 * \<bar>3 * ?A + 3 * ?m * ?B\<bar>"
    by (simp add: abs_mult)
  also have "\<dots> \<le> ((e - s) / 2)\<^sup>2 * comp_bound b1 b2 b3 b4"
    using inner by (intro mult_left_mono) simp_all
  finally show ?thesis unfolding bez_deviation .
qed

lemma curve_bound_nonneg: "0 \<le> curve_bound curve"
  by (cases "control_points curve") (simp add: curve_bound_def comp_bound_def)

lemma sqrt_sum3_le: "sqrt (x\<^sup>2 + y\<^sup>2 + z\<^sup>2) \<le> \<bar>x\<bar> + \<bar>y\<bar> + \<bar>z\<bar>"
proof (rule real_le_lsqrt)
  show "0 \<le> \<bar>x\<bar> + \<bar>y\<bar> + \<bar>z\<bar>" by simp
  have "0 \<le> 2 * (\<bar>x\<bar> * \<bar>y\<bar>) + 2 * (\<bar>x\<bar> * \<bar>z\<bar>) + 2 * (\<bar>y\<bar> * \<bar>z\<bar>)" by simp
  moreover have "(\<bar>x\<bar> + \<bar>y\<bar> + \<bar>z\<bar>)\<^sup>2
      = x\<^sup>2 + y\<^sup>2 + z\<^sup>2 + (2 * (\<bar>x\<bar> * \<bar>y\<bar>) + 2 * (\<bar>x\<bar> * \<bar>z\<bar>) + 2 * (\<bar>y\<bar> * \<bar>z\<bar>))"
    by (simp add: power2_eq_square algebra_simps)
  ultimately show "x\<^sup>2 + y\<^sup>2 + z\<^sup>2 \<le> (\<bar>x\<bar> + \<bar>y\<bar> + \<bar>z\<bar>)\<^sup>2" by linarith
qed

lemma chord_deviation_bound:
  assumes "0 \<le> s" "s \<le> e" "e \<le> 1"
  shows "vdistance (vlerp (get_curve_point real_ops curve s) (get_curve_point real_ops curve e))
           (get_curve_point real_ops curve ((s + e) * (1 / 2)))
         \<le> ((e - s) / 2)\<^sup>2 * curve_bound curve"
proof -
  obtain b1 b2 b3 b4 where cp: "control_points curve = (b1, b2, b3, b4)"
    by (cases "control_points curve") auto
  note comps = get_curve_point_components [OF cp]
  let ?P = "get_curve_point real_ops curve"
  let ?chk = "vlerp (?P s) (?P e)" and ?mid = "?P ((s + e) * (1 / 2))"
  have dx: "\<bar>vx ?chk - vx ?mid\<bar> \<le> ((e - s) / 2)\<^sup>2 * comp_bound (vx b1) (vx b2) (vx b3) (vx b4)"
    using bez_deviation_bound [OF assms, of "vx b1" "vx b2" "vx b3" "vx b4"]
    by (simp add: vlerp_def vadd_def vsub_def vscale_def comps)
  have dy: "\<bar>vy ?chk - vy ?mid\<bar> \<le> ((e - s) / 2)\<^sup>2 * comp_bound (vy b1) (vy b2) (vy b3) (vy b4)"
    using bez_deviation_bound [OF assms, of "vy b1" "vy b2" "vy b3" "vy b4"]
    by (simp add: vlerp_def vadd_def vsub_def vscale_def comps)
  have dz: "\<bar>vz ?chk - vz ?mid\<bar> \<le> ((e - s) / 2)\<^sup>2 * comp_bound (vz b1) (vz b2) (vz b3) (vz b4)"
    using bez_deviation_bound [OF assms, of "vz b1" "vz b2" "vz b3" "vz b4"]
    by (simp add: vlerp_def vadd_def vsub_def vscale_def comps)
  have "vdistance ?chk ?mid \<le> \<bar>vx ?chk - vx ?mid\<bar> + \<bar>vy ?chk - vy ?mid\<bar> + \<bar>vz ?chk - vz ?mid\<bar>"
    unfolding vdistance_def by (rule sqrt_sum3_le)
  also have "\<dots> \<le> ((e - s) / 2)\<^sup>2 * comp_bound (vx b1) (vx b2) (vx b3) (vx b4)
                 + ((e - s) / 2)\<^sup>2 * comp_bound (vy b1) (vy b2) (vy b3) (vy b4)
                 + ((e - s) / 2)\<^sup>2 * comp_bound (vz b1) (vz b2) (vz b3) (vz b4)"
    using dx dy dz by linarith
  also have "\<dots> = ((e - s) / 2)\<^sup>2 * curve_bound curve"
    by (simp add: curve_bound_def cp algebra_simps)
  finally show ?thesis .
qed

lemma subdiv_exhausts:
  assumes "0 \<le> s" and "s \<le> e" and "e \<le> 1"
    and "(e - s)\<^sup>2 * curve_bound curve < 4 * d * 4 ^ n"
  shows "\<exists>vs. subdiv (Suc n) real_ops curve d (get_curve_point real_ops curve s)
                 (get_curve_point real_ops curve e) s e = (vs, Exhausted)"
  using assms
proof (induction n arbitrary: s e)
  case 0
  let ?P = "get_curve_point real_ops curve"
  have "vdistance (vlerp (?P s) (?P e)) (?P ((s + e) * (1 / 2)))
          \<le> ((e - s) / 2)\<^sup>2 * curve_bound curve"
    using 0 by (intro chord_deviation_bound) simp_all
  also have "\<dots> = (e - s)\<^sup>2 * curve_bound curve / 4"
    by (simp add: power2_eq_square)
  also have "\<dots> < d" using 0 by simp
  finally have "vdistance (vlerp (?P s) (?P e)) (?P ((s + e) * (1 / 2))) < d" .
  then show ?case by (simp add: subdiv.simps Let_def real_ops_def)
next
  case (Suc n)
  let ?P = "get_curve_point real_ops curve"
  let ?m = "(s + e) * (1 / 2)"
  show ?case
  proof (cases "vdistance (vlerp (?P s) (?P e)) (?P ?m) < d")
    case True
    then show ?thesis by (subst subdiv.simps) (simp add: Let_def real_ops_def)
  next
    case False
    have sm: "s \<le> ?m" and me: "?m \<le> e" using Suc.prems by simp_all
    have quarter: "(?m - s)\<^sup>2 = (e - s)\<^sup>2 / 4" "(e - ?m)\<^sup>2 = (e - s)\<^sup>2 / 4"
      by (simp_all add: power2_eq_square field_simps)
    have half1: "(?m - s)\<^sup>2 * curve_bound curve < 4 * d * 4 ^ n"
      and half2: "(e - ?m)\<^sup>2 * curve_bound curve < 4 * d * 4 ^ n"
      using Suc.prems(4) unfolding quarter by simp_all
    from Suc.IH [of s ?m] Suc.prems sm me half1 obtain xs where
      r1: "subdiv (Suc n) real_ops curve d (?P s) (?P ?m) s ?m = (xs, Exhausted)"
      by auto
    from Suc.IH [of ?m e] Suc.prems sm me half2 obtain ys where
      r2: "subdiv (Suc n) real_ops curve d (?P ?m) (?P e) ?m e = (ys, Exhausted)"
      by auto
    have f: "f_mul real_ops (f_add real_ops s e) (f_half real_ops) = ?m"
      "f_less real_ops = (<)" "v_distance real_ops = vdistance" "v_lerp real_ops = vlerp"
      by (simp_all add: real_ops_def)
    have "subdiv (Suc (Suc n)) real_ops curve d (?P s) (?P e) s e = (xs @ ys, Exhausted)"
      using False r1 r2 by (subst subdiv.simps) (simp add: Let_def f)
    then show ?thesis by blast
  qed
qed

lemma flattening_loop_at_one:
  "flattening_loop iterations depth real_ops curve d dt 1 sp = ([], Exhausted)"
  by (cases iterations) (simp_all add: flattening_loop.simps real_ops_def)

lemma flattening_loop_exhausts:
  assumes "0 < dt" and "0 \<le> t0" and "t0 + real j * dt = 1"
    and "curve_bound curve < 4 * d * 4 ^ n"
  shows "\<exists>vs. flattening_loop j (Suc n) real_ops curve d dt t0
                 (get_curve_point real_ops curve t0) = (vs, Exhausted)"
  using assms(2,3)
proof (induction j arbitrary: t0)
  case 0
  then have "t0 = 1" by simp
  then show ?case by (simp add: flattening_loop_at_one)
next
  case (Suc j)
  let ?P = "get_curve_point real_ops curve"
  have t1: "t0 + dt + real j * dt = 1" using Suc.prems by (simp add: algebra_simps)
  have jn: "0 \<le> real j * dt" using assms(1) by simp
  have lt: "t0 < 1" using t1 jn assms(1) by linarith
  have le1: "t0 + dt \<le> 1" using t1 jn by linarith
  have p1: "?P 1 = snd (snd (snd (control_points curve)))"
    using get_curve_point_at_ends [OF exact_at_ends_real_ops, of curve]
    by (simp add: real_ops_def)
  define close where "close = math_isclose (t0 + dt) 1 (1 / 10 ^ 9) 0"
  define t1' where "t1' = (if close then 1 else t0 + dt)"
  have ep: "(if close then snd (snd (snd (control_points curve))) else ?P (t0 + dt)) = ?P t1'"
    by (simp add: t1'_def p1)
  have range: "0 \<le> t0" "t0 \<le> t1'" "t1' \<le> 1"
    using Suc.prems(1) assms(1) le1 lt by (simp_all add: t1'_def)
  have "(t1' - t0)\<^sup>2 \<le> 1"
    using range by (simp add: power_le_one_iff abs_le_square_iff [symmetric])
  then have "(t1' - t0)\<^sup>2 * curve_bound curve \<le> 1 * curve_bound curve"
    using curve_bound_nonneg by (intro mult_right_mono) simp_all
  then have bound: "(t1' - t0)\<^sup>2 * curve_bound curve < 4 * d * 4 ^ n"
    using assms(4) by simp
  from subdiv_exhausts [OF range bound] obtain xs where
    sub: "subdiv (Suc n) real_ops curve d (?P t0) (?P t1') t0 t1' = (xs, Exhausted)"
    by blast
  have "\<exists>ys. flattening_loop j (Suc n) real_ops curve d dt t1' (?P t1') = (ys, Exhausted)"
  proof (cases close)
    case True
    then show ?thesis by (simp add: t1'_def flattening_loop_at_one)
  next
    case False
    then have "t1' = t0 + dt" by (simp add: t1'_def)
    with Suc.IH [of "t0 + dt"] t1 range show ?thesis by simp
  qed
  then obtain ys where
    rest: "flattening_loop j (Suc n) real_ops curve d dt t1' (?P t1') = (ys, Exhausted)"
    by blast
  have f: "f_less real_ops t0 1" "f_add real_ops t0 dt = t0 + dt"
    "f_isclose real_ops (t0 + dt) 1 = close"
    using lt by (simp_all add: real_ops_def close_def)
  have one: "f_one real_ops = 1" by (simp add: real_ops_def)
  show ?case
  proof (cases close)
    case True
    from sub True have sub1: "subdiv (Suc n) real_ops curve d (?P t0)
        (snd (snd (snd (control_points curve)))) t0 1 = (xs, Exhausted)"
      by (simp add: t1'_def p1)
    from rest True have rest1: "flattening_loop j (Suc n) real_ops curve d dt 1
        (snd (snd (snd (control_points curve)))) = (ys, Exhausted)"
      by (simp add: t1'_def p1)
    have "flattening_loop (Suc j) (Suc n) real_ops curve d dt t0 (?P t0) = (xs @ ys, Exhausted)"
      by (subst flattening_loop.simps) (simp add: Let_def f True one sub1 rest1)
    then show ?thesis by blast
  next
    case False
    from sub False have sub1: "subdiv (Suc n) real_ops curve d (?P t0) (?P (t0 + dt)) t0 (t0 + dt)
        = (xs, Exhausted)"
      by (simp add: t1'_def)
    from rest False have rest1: "flattening_loop j (Suc n) real_ops curve d dt (t0 + dt)
        (?P (t0 + dt)) = (ys, Exhausted)"
      by (simp add: t1'_def)
    have "flattening_loop (Suc j) (Suc n) real_ops curve d dt t0 (?P t0) = (xs @ ys, Exhausted)"
      by (subst flattening_loop.simps) (simp add: Let_def f False one sub1 rest1)
    then show ?thesis by blast
  qed
qed

lemma flattening_exhausts_over_reals:
  assumes "0 < d" and "1 \<le> segments"
  shows "\<exists>iterations depth vs.
           flattening iterations depth real_ops curve d segments = Inr (vs, Exhausted)"
proof -
  have "\<exists>n. curve_bound curve / (4 * d) < 4 ^ n"
    by (rule real_arch_pow) simp
  then obtain n :: nat where "curve_bound curve / (4 * d) < 4 ^ n" by blast
  then have bound: "curve_bound curve < 4 * d * 4 ^ n"
    using assms(1) by (simp add: field_simps)
  define j where "j = nat segments"
  have j: "real j = of_int segments" using assms(2) by (simp add: j_def)
  have dt: "0 < 1 / (of_int segments :: real)" using assms(2) by simp
  have sum: "0 + real j * (1 / of_int segments) = 1" using assms(2) j by simp
  have p0: "get_curve_point real_ops curve 0 = fst (control_points curve)"
    using get_curve_point_at_ends [OF exact_at_ends_real_ops, of curve]
    by (simp add: real_ops_def)
  from flattening_loop_exhausts [OF dt _ sum bound] obtain vs where
    "flattening_loop j (Suc n) real_ops curve d (1 / of_int segments) 0
       (get_curve_point real_ops curve 0) = (vs, Exhausted)"
    by auto
  then have loop: "flattening_loop j (Suc n) real_ops curve d (1 / of_int segments) 0
       (fst (control_points curve)) = (vs, Exhausted)"
    unfolding p0 .
  have f: "f_of_int real_ops segments = Some (of_int segments)"
    "f_div real_ops (f_one real_ops) (of_int segments) = 1 / of_int segments"
    "f_zero real_ops = 0"
    by (simp_all add: real_ops_def)
  have "flattening j (Suc n) real_ops curve d segments
               = Inr (fst (control_points curve) # vs, Exhausted)"
    using assms(2) by (simp add: flattening_def Let_def f loop)
  then show ?thesis by blast
qed

end
